theory Spec2Isabelle
  imports Main "HOL-Library.Sublist" "HOL-Library.Char_ord" "HOL-Library.List_Lexorder"
    "HOL-Library.Word"
begin

unbundle bit_operations_syntax

section \<open>Error model (error.go)\<close>

text \<open>
  The Go struct \<^verbatim>\<open>Error{Message string; Code int}\<close>. Byte slices and Go strings are
  both sequences of bytes and are modelled as \<^typ>\<open>string\<close>.
\<close>

datatype Error = Error (Message: string) (Code: int)

text \<open>
  A value of Go's \<^verbatim>\<open>error\<close> interface as this program produces it: either the typed
  \<^verbatim>\<open>Error\<close> struct, or an error that only carries a message (\<^verbatim>\<open>errors.New\<close>,
  \<^verbatim>\<open>fmt.Errorf\<close>, errors of the standard library).
\<close>

datatype goerror = Typed Error | Untyped string

fun errorString :: "goerror \<Rightarrow> string" where
  "errorString (Typed e) = Message e"
| "errorString (Untyped m) = m"

definition NewError :: "string \<Rightarrow> int \<Rightarrow> Error" where
  "NewError err code = Error (filter (\<lambda>c. c \<noteq> CHR 0x0A) err) code"

definition HTTPCode :: "Error \<Rightarrow> int" where
  "HTTPCode e = (if Code e \<ge> 400 \<and> Code e \<le> 511 then Code e else 503)"

definition ErrMethodNotAllowed :: Error where
  "ErrMethodNotAllowed = NewError
     ''HTTP method not allowed. Try with a POST or GET method (-enable-url-source flag must be defined)'' 405"

definition ErrGetMethodNotAllowed :: Error where
  "ErrGetMethodNotAllowed = NewError
     ''GET method not allowed. Make sure remote URL source is enabled by using the flag: -enable-url-source'' 405"

definition ErrInvalidAPIKey :: Error where
  "ErrInvalidAPIKey = NewError ''Invalid or missing API key'' 401"

definition ErrEmptyBody :: Error where
  "ErrEmptyBody = NewError ''Empty or unreadable image'' 400"

definition ErrMissingParamFile :: Error where
  "ErrMissingParamFile = NewError ''Missing required param: file'' 400"

definition ErrInvalidFilePath :: Error where
  "ErrInvalidFilePath = NewError ''Invalid file path'' 400"

definition ErrInvalidImageURL :: Error where
  "ErrInvalidImageURL = NewError ''Invalid image URL'' 400"

definition ErrNotImplemented :: Error where
  "ErrNotImplemented = NewError ''Not implemented endpoint'' 501"

definition ErrInvalidURLSignature :: Error where
  "ErrInvalidURLSignature = NewError ''Invalid URL signature'' 400"

definition ErrURLSignatureMismatch :: Error where
  "ErrURLSignatureMismatch = NewError ''URL signature mismatch'' 403"

definition ErrResolutionTooBig :: Error where
  "ErrResolutionTooBig = NewError ''Image resolution is too big'' 422"

text \<open>Decimal rendering of an integer, as \<^verbatim>\<open>%d\<close> of \<^verbatim>\<open>fmt\<close> prints it.\<close>

definition digit_char :: "nat \<Rightarrow> char" where
  "digit_char n = ''0123456789'' ! n"

fun decimal_nat :: "nat \<Rightarrow> string" where
  "decimal_nat n = (if n < 10 then [digit_char n]
                    else decimal_nat (n div 10) @ [digit_char (n mod 10)])"

definition decimal :: "int \<Rightarrow> string" where
  "decimal i = (if i < 0 then CHR ''-'' # decimal_nat (nat (- i)) else decimal_nat (nat i))"

text \<open>\<^verbatim>\<open>strings.Join\<close>.\<close>

fun join :: "string \<Rightarrow> string list \<Rightarrow> string" where
  "join sep [] = []"
| "join sep [x] = x"
| "join sep (x # y # rest) = x @ sep @ join sep (y # rest)"

text \<open>\<^verbatim>\<open>strings.Split\<close> on a one-byte separator.\<close>

fun split :: "char \<Rightarrow> string \<Rightarrow> string list" where
  "split sep [] = [[]]"
| "split sep (c # cs) =
     (if c = sep then [] # split sep cs
      else (case split sep cs of [] \<Rightarrow> [[c]] | x # xs \<Rightarrow> (c # x) # xs))"

section \<open>Requests and the effects a handler can have\<close>

text \<open>
  \<^verbatim>\<open>url.URL\<close>, reduced to the fields the program reads; \<open>Str\<close> is what
  \<^verbatim>\<open>String()\<close> prints.
\<close>

record URL =
  Host :: string
  Path :: string
  Str :: string

text \<open>
  \<^verbatim>\<open>url.Values\<close> is a map from a key to the list of its values; an association list
  whose first binding of a key is the map's entry.
\<close>

type_synonym Values = "(string \<times> string list) list"

definition Get :: "Values \<Rightarrow> string \<Rightarrow> string" where
  "Get v k = (case map_of v k of None \<Rightarrow> [] | Some [] \<Rightarrow> [] | Some (x # _) \<Rightarrow> x)"

definition Del :: "Values \<Rightarrow> string \<Rightarrow> Values" where
  "Del v k = filter (\<lambda>kv. fst kv \<noteq> k) v"

text \<open>
  The incoming \<^verbatim>\<open>*http.Request\<close>: \<open>Query\<close> is \<^verbatim>\<open>r.URL.Query()\<close>, \<open>ReqHeader\<close> is
  \<^verbatim>\<open>r.Header.Get\<close> (the empty string for an absent header), \<open>RawBody\<close> is what reading
  \<^verbatim>\<open>r.Body\<close> to its end yields and \<open>FormFile\<close> is the outcome of
  \<^verbatim>\<open>r.FormFile(name)\<close> read to its end.
\<close>

record Request =
  Method :: string
  UrlPath :: string
  Query :: Values
  ReqHeader :: "string \<Rightarrow> string"
  RawBody :: "string + string"
  FormFile :: "string \<Rightarrow> string + string"

text \<open>An outbound request of the HTTP source, as \<open>newRequest\<close> builds it.\<close>

record Outbound =
  OutMethod :: string
  OutURL :: URL
  OutHeaders :: "(string \<times> string) list"

text \<open>
  Effects outside the response, logged in the order they happen: an outbound HTTP request,
  a file opened on the local filesystem, the handler's invocation of its operation on a
  buffer, and a pipeline's invocation of a named operation (its 1-based position, its name,
  its input buffer).
\<close>

datatype event = OutboundRequest Outbound | FileOpen string | OperationCall string
  | TransformCall nat string string

section \<open>Remote HTTP source (the HTTPImageSource of src/source.go, second part, and that of src/source_http.go)\<close>

record SourceConfig =
  AuthForwarding :: bool
  Authorization :: string
  MountPath :: string
  ForwardHeaders :: "string list"
  AllowedOrigins :: "URL list"
  MaxAllowedSize :: int

text \<open>What \<^verbatim>\<open>client.Do\<close> hands back: the status, the declared content length, and the
  body as a stream that yields \<open>RespBody\<close> and then ends, with a read error when
  \<open>ReadErr\<close> is set.\<close>

record Response =
  StatusCode :: int
  ContentLength :: int
  RespBody :: string
  ReadErr :: "string option"

text \<open>The network: an outbound request is answered, or fails with a message.\<close>

type_synonym Remote = "Outbound \<Rightarrow> string + Response"

definition HTTP_Matches :: "Request \<Rightarrow> bool" where
  "HTTP_Matches r = (Method r = ''GET'' \<and> Get (Query r) ''url'' \<noteq> [])"

fun originAllows :: "URL \<Rightarrow> URL \<Rightarrow> bool" where
  "originAllows origin url =
     (if Host origin = Host url \<and> prefix (Path origin) (Path url) then True
      else if prefix ''*.'' (Host origin) then
        (let suf = drop 1 (Host origin) in
           (Host url = drop 2 (Host origin) \<or> suffix suf (Host url)) \<and>
           prefix (Path origin) (Path url))
      else False)"

fun restrictLoop :: "URL list \<Rightarrow> URL \<Rightarrow> bool" where
  "restrictLoop [] url = True"
| "restrictLoop (origin # rest) url =
     (if originAllows origin url then False else restrictLoop rest url)"

definition shouldRestrictOrigin :: "SourceConfig \<Rightarrow> URL \<Rightarrow> bool" where
  "shouldRestrictOrigin cfg url =
     (if length (AllowedOrigins cfg) = 0 then False
      else restrictLoop (AllowedOrigins cfg) url)"

text \<open>
  \<^verbatim>\<open>textproto.CanonicalMIMEHeaderKey\<close>, through which \<^verbatim>\<open>Header.Set\<close> passes its
  key: a key made of header-field bytes only gets an upper-case first letter and an
  upper-case letter after every hyphen, its other letters in lower case; a key with any
  other byte in it is left as it is.
\<close>

definition validHeaderFieldByte :: "char \<Rightarrow> bool" where
  "validHeaderFieldByte c =
     ((CHR ''a'' \<le> c \<and> c \<le> CHR ''z'') \<or> (CHR ''A'' \<le> c \<and> c \<le> CHR ''Z'') \<or>
      (CHR ''0'' \<le> c \<and> c \<le> CHR ''9'') \<or> c \<in> set ''!#$%&*+-.^_`|~'' \<or> c = CHR 0x27)"

fun canonicalLoop :: "bool \<Rightarrow> string \<Rightarrow> string" where
  "canonicalLoop up [] = []"
| "canonicalLoop up (c # rest) =
     (let c' = (if up \<and> CHR ''a'' \<le> c \<and> c \<le> CHR ''z'' then char_of (of_char c - (32::nat))
                else if \<not> up \<and> CHR ''A'' \<le> c \<and> c \<le> CHR ''Z'' then char_of (of_char c + (32::nat))
                else c)
      in c' # canonicalLoop (c' = CHR ''-'') rest)"

definition CanonicalMIMEHeaderKey :: "string \<Rightarrow> string" where
  "CanonicalMIMEHeaderKey s =
     (if list_all validHeaderFieldByte s then canonicalLoop True s else s)"

text \<open>
  \<open>setAuthorizationHeader\<close> and \<open>setForwardHeaders\<close>: \<^verbatim>\<open>Header.Set\<close> on the outbound
  request replaces the value held under the key's canonical form.
\<close>

definition setHeader :: "string \<Rightarrow> string \<Rightarrow> (string \<times> string) list \<Rightarrow> (string \<times> string) list" where
  "setHeader k v hs =
     (let key = CanonicalMIMEHeaderKey k in filter (\<lambda>kv. fst kv \<noteq> key) hs @ [(key, v)])"

definition setAuthorizationHeader :: "SourceConfig \<Rightarrow> Request \<Rightarrow> (string \<times> string) list \<Rightarrow> (string \<times> string) list" where
  "setAuthorizationHeader cfg ireq hs =
     (if Authorization cfg \<noteq> [] then setHeader ''Authorization'' (Authorization cfg) hs
      else if ReqHeader ireq ''X-Forward-Authorization'' \<noteq> [] then
        setHeader ''Authorization'' (ReqHeader ireq ''X-Forward-Authorization'') hs
      else if ReqHeader ireq ''Authorization'' \<noteq> [] then
        setHeader ''Authorization'' (ReqHeader ireq ''Authorization'') hs
      else hs)"

fun setForwardHeaders :: "string list \<Rightarrow> Request \<Rightarrow> (string \<times> string) list \<Rightarrow> (string \<times> string) list" where
  "setForwardHeaders [] ireq hs = hs"
| "setForwardHeaders (h # rest) ireq hs =
     setForwardHeaders rest ireq
       (if ReqHeader ireq h \<noteq> [] then setHeader h (ReqHeader ireq h) hs else hs)"

text \<open>\<open>version\<close> is the program's constant \<^verbatim>\<open>Version\<close>, taken as a parameter.\<close>

definition newRequest :: "string \<Rightarrow> SourceConfig \<Rightarrow> string \<Rightarrow> URL \<Rightarrow> Request \<Rightarrow> Outbound" where
  "newRequest version cfg method url ireq =
     (let h0 = [(''User-Agent'', ''imaginary/'' @ version)];
          h1 = (if AuthForwarding cfg \<or> Authorization cfg \<noteq> []
                then setAuthorizationHeader cfg ireq h0 else h0);
          h2 = (if length (ForwardHeaders cfg) > 0
                then setForwardHeaders (ForwardHeaders cfg) ireq h1 else h1)
      in \<lparr>OutMethod = method, OutURL = url, OutHeaders = h2\<rparr>)"

text \<open>\<open>checkImageSize\<close>: the HEAD probe. The result is the error, if any, and the
  outbound requests issued.\<close>

definition checkImageSize :: "string \<Rightarrow> SourceConfig \<Rightarrow> Remote \<Rightarrow> URL \<Rightarrow> Request \<Rightarrow> goerror option \<times> event list" where
  "checkImageSize version cfg remote url ireq =
     (let req = newRequest version cfg ''HEAD'' url ireq in
      case remote req of
        Inl err \<Rightarrow> (Some (Untyped (''error checking image size: '' @ err)), [OutboundRequest req])
      | Inr res \<Rightarrow>
          if StatusCode res < 200 \<or> StatusCode res > 206 then
            (Some (Typed (NewError (''invalid status checking image size: (status='' @
                 decimal (StatusCode res) @ '') (url='' @ Str url @ '')'') (StatusCode res))),
             [OutboundRequest req])
          else if ContentLength res > MaxAllowedSize cfg then
            (Some (Untyped (''content length '' @ decimal (ContentLength res) @
                 '' exceeds maximum allowed '' @ decimal (MaxAllowedSize cfg) @ '' bytes'')),
             [OutboundRequest req])
          else (None, [OutboundRequest req]))"

text \<open>
  \<^verbatim>\<open>io.ReadAll(io.LimitReader(body, n))\<close>: the limited reader ends the stream once
  \<open>n\<close> bytes were delivered (at once when \<open>n \<le> 0\<close>) without reading further; only when
  the body is shorter than \<open>n\<close> does the body's own end, or read error, show.
\<close>

definition readAllLimited :: "Response \<Rightarrow> int \<Rightarrow> goerror + string" where
  "readAllLimited res n =
     (if int (length (RespBody res)) < n then
        (case ReadErr res of None \<Rightarrow> Inr (RespBody res) | Some err \<Rightarrow> Inl (Untyped err))
      else Inr (take (nat n) (RespBody res)))"

definition fetchGet :: "string \<Rightarrow> SourceConfig \<Rightarrow> Remote \<Rightarrow> URL \<Rightarrow> Request \<Rightarrow> (goerror + string) \<times> event list" where
  "fetchGet version cfg remote url ireq =
     (let req = newRequest version cfg ''GET'' url ireq in
      case remote req of
        Inl err \<Rightarrow> (Inl (Untyped (''error fetching remote http image: '' @ err)), [OutboundRequest req])
      | Inr res \<Rightarrow>
          if StatusCode res \<noteq> 200 then
            (Inl (Typed (NewError (''error fetching remote http image: (status='' @
                 decimal (StatusCode res) @ '') (url='' @ Str url @ '')'') (StatusCode res))),
             [OutboundRequest req])
          else (readAllLimited res (MaxAllowedSize cfg), [OutboundRequest req]))"

definition fetchImage :: "string \<Rightarrow> SourceConfig \<Rightarrow> Remote \<Rightarrow> URL \<Rightarrow> Request \<Rightarrow> (goerror + string) \<times> event list" where
  "fetchImage version cfg remote url ireq =
     (if MaxAllowedSize cfg > 0 then
        (case checkImageSize version cfg remote url ireq of
           (Some err, evs) \<Rightarrow> (Inl err, evs)
         | (None, evs) \<Rightarrow>
             (let (res, evs') = fetchGet version cfg remote url ireq in (res, evs @ evs')))
      else fetchGet version cfg remote url ireq)"

text \<open>\<open>parse\<close> is \<^verbatim>\<open>url.Parse\<close> of the standard library (\<open>None\<close> when it fails).\<close>

definition HTTP_GetImage :: "string \<Rightarrow> (string \<Rightarrow> URL option) \<Rightarrow> SourceConfig \<Rightarrow> Remote \<Rightarrow> Request \<Rightarrow> (goerror + string) \<times> event list" where
  "HTTP_GetImage version parse cfg remote req =
     (case parse (Get (Query req) ''url'') of
        None \<Rightarrow> (Inl (Typed ErrInvalidImageURL), [])
      | Some u \<Rightarrow>
          if shouldRestrictOrigin cfg u then
            (Inl (Untyped (''not allowed remote URL origin: '' @ Host u @ Path u)), [])
          else fetchImage version cfg remote u req)"

text \<open>
  The HTTPImageSource of src/source_http.go. \<open>Matches\<close>, \<open>GetImage\<close>,
  \<open>shouldRestrictOrigin\<close>, \<open>checkImageSize\<close> and the two header setters do what those
  above do. Two functions differ: \<open>newRequest\<close> forwards the configured headers before it
  sets the authorization header, and \<open>fetchImage\<close> reads the response body to its end
  with \<^verbatim>\<open>io.ReadAll(res.Body)\<close>, with no limit, and wraps a read error.
\<close>

definition source_http_newRequest :: "string \<Rightarrow> SourceConfig \<Rightarrow> string \<Rightarrow> URL \<Rightarrow> Request \<Rightarrow> Outbound" where
  "source_http_newRequest version cfg method url ireq =
     (let h0 = [(''User-Agent'', ''imaginary/'' @ version)];
          h1 = (if length (ForwardHeaders cfg) > 0
                then setForwardHeaders (ForwardHeaders cfg) ireq h0 else h0);
          h2 = (if AuthForwarding cfg \<or> Authorization cfg \<noteq> []
                then setAuthorizationHeader cfg ireq h1 else h1)
      in \<lparr>OutMethod = method, OutURL = url, OutHeaders = h2\<rparr>)"

definition source_http_checkImageSize :: "string \<Rightarrow> SourceConfig \<Rightarrow> Remote \<Rightarrow> URL \<Rightarrow> Request \<Rightarrow> goerror option \<times> event list" where
  "source_http_checkImageSize version cfg remote url ireq =
     (let req = source_http_newRequest version cfg ''HEAD'' url ireq in
      case remote req of
        Inl err \<Rightarrow> (Some (Untyped (''error checking image size: '' @ err)), [OutboundRequest req])
      | Inr res \<Rightarrow>
          if StatusCode res < 200 \<or> StatusCode res > 206 then
            (Some (Typed (NewError (''invalid status checking image size: (status='' @
                 decimal (StatusCode res) @ '') (url='' @ Str url @ '')'') (StatusCode res))),
             [OutboundRequest req])
          else if ContentLength res > MaxAllowedSize cfg then
            (Some (Untyped (''content length '' @ decimal (ContentLength res) @
                 '' exceeds maximum allowed '' @ decimal (MaxAllowedSize cfg) @ '' bytes'')),
             [OutboundRequest req])
          else (None, [OutboundRequest req]))"

definition source_http_fetchGet :: "string \<Rightarrow> SourceConfig \<Rightarrow> Remote \<Rightarrow> URL \<Rightarrow> Request \<Rightarrow> (goerror + string) \<times> event list" where
  "source_http_fetchGet version cfg remote url ireq =
     (let req = source_http_newRequest version cfg ''GET'' url ireq in
      case remote req of
        Inl err \<Rightarrow> (Inl (Untyped (''error fetching remote http image: '' @ err)), [OutboundRequest req])
      | Inr res \<Rightarrow>
          if StatusCode res \<noteq> 200 then
            (Inl (Typed (NewError (''error fetching remote http image: (status='' @
                 decimal (StatusCode res) @ '') (url='' @ Str url @ '')'') (StatusCode res))),
             [OutboundRequest req])
          else
            (case ReadErr res of
               None \<Rightarrow> (Inr (RespBody res), [OutboundRequest req])
             | Some err \<Rightarrow>
                 (Inl (Untyped (''unable to read image from response: '' @ err)), [OutboundRequest req])))"

definition source_http_fetchImage :: "string \<Rightarrow> SourceConfig \<Rightarrow> Remote \<Rightarrow> URL \<Rightarrow> Request \<Rightarrow> (goerror + string) \<times> event list" where
  "source_http_fetchImage version cfg remote url ireq =
     (if MaxAllowedSize cfg > 0 then
        (case source_http_checkImageSize version cfg remote url ireq of
           (Some err, evs) \<Rightarrow> (Inl err, evs)
         | (None, evs) \<Rightarrow>
             (let (res, evs') = source_http_fetchGet version cfg remote url ireq in (res, evs @ evs')))
      else source_http_fetchGet version cfg remote url ireq)"

definition source_http_GetImage :: "string \<Rightarrow> (string \<Rightarrow> URL option) \<Rightarrow> SourceConfig \<Rightarrow> Remote \<Rightarrow> Request \<Rightarrow> (goerror + string) \<times> event list" where
  "source_http_GetImage version parse cfg remote req =
     (case parse (Get (Query req) ''url'') of
        None \<Rightarrow> (Inl (Typed ErrInvalidImageURL), [])
      | Some u \<Rightarrow>
          if shouldRestrictOrigin cfg u then
            (Inl (Untyped (''not allowed remote URL origin: '' @ Host u @ Path u)), [])
          else source_http_fetchImage version cfg remote u req)"

text \<open>
  The allow-list rule in the specification's words: an entry matches by exact host equality,
  or, when the entry's host begins with \<^verbatim>\<open>*.\<close>, by the host being the bare suffix
  or ending in a dot followed by the suffix; in each case the entry's path must be a prefix
  of the requested path.
\<close>

definition spec_origin_matches :: "URL \<Rightarrow> URL \<Rightarrow> bool" where
  "spec_origin_matches entry url =
     ((Host url = Host entry \<or>
       (prefix ''*.'' (Host entry) \<and>
        (Host url = drop 2 (Host entry) \<or> suffix (CHR ''.'' # drop 2 (Host entry)) (Host url)))) \<and>
      prefix (Path entry) (Path url))"

section \<open>Replying: the response writer and ErrorReply (error.go)\<close>

text \<open>
  The \<^verbatim>\<open>http.ResponseWriter\<close> as state: the header map, the status once written, the
  body written so far. \<open>Log\<close> is a ghost field: the effects outside the response, in
  order. \<^verbatim>\<open>WriteHeader\<close> counts once; \<^verbatim>\<open>Write\<close> before it implies status 200.
\<close>

record ResponseWriter =
  Hdr :: "string \<Rightarrow> string option"
  Status :: "int option"
  Body :: string
  Log :: "event list"

type_synonym Handler = "Request \<Rightarrow> ResponseWriter \<Rightarrow> ResponseWriter"

definition HeaderSet :: "string \<Rightarrow> string \<Rightarrow> ResponseWriter \<Rightarrow> ResponseWriter" where
  "HeaderSet k v w = w\<lparr>Hdr := (Hdr w)(k \<mapsto> v)\<rparr>"

definition WriteHeader :: "int \<Rightarrow> ResponseWriter \<Rightarrow> ResponseWriter" where
  "WriteHeader c w = (if Status w = None then w\<lparr>Status := Some c\<rparr> else w)"

definition Write :: "string \<Rightarrow> ResponseWriter \<Rightarrow> ResponseWriter" where
  "Write b w = (WriteHeader 200 w)\<lparr>Body := Body w @ b\<rparr>"

definition logEvents :: "event list \<Rightarrow> ResponseWriter \<Rightarrow> ResponseWriter" where
  "logEvents evs w = w\<lparr>Log := Log w @ evs\<rparr>"

text \<open>The fields of \<^verbatim>\<open>ServerOptions\<close> (server.go) that the modelled code reads.\<close>

record ServerOptions =
  Burst :: int
  Concurrency :: int
  HTTPCacheTTL :: int
  CORS :: bool
  EnableURLSource :: bool
  EnablePlaceholder :: bool
  EnableURLSignature :: bool
  URLSignatureKey :: string
  APIKey :: string
  Mount :: string
  Placeholder :: string
  PlaceholderStatus :: int
  PlaceholderImage :: string
  Endpoints :: "string list"

text \<open>\<^verbatim>\<open>bimg.ImageType\<close> and the two tables of the type helpers.\<close>

datatype BimgImageType = UNKNOWN | JPEG | WEBP | PNG | TIFF | GIF | PDF | SVG | MAGICK | HEIF | AVIF

definition lower_char :: "char \<Rightarrow> char" where
  "lower_char c = (if CHR ''A'' \<le> c \<and> c \<le> CHR ''Z'' then char_of (of_char c + (32::nat)) else c)"

definition ToLower :: "string \<Rightarrow> string" where
  "ToLower s = map lower_char s"

definition ImageType :: "string \<Rightarrow> BimgImageType" where
  "ImageType name = (let n = ToLower name in
     if n = ''jpeg'' \<or> n = ''jpg'' then JPEG
     else if n = ''png'' then PNG
     else if n = ''webp'' then WEBP
     else if n = ''tiff'' then TIFF
     else if n = ''gif'' then GIF
     else if n = ''svg'' then SVG
     else if n = ''pdf'' then PDF
     else UNKNOWN)"

fun GetImageMimeType :: "BimgImageType \<Rightarrow> string" where
  "GetImageMimeType PNG = ''image/png''"
| "GetImageMimeType WEBP = ''image/webp''"
| "GetImageMimeType TIFF = ''image/tiff''"
| "GetImageMimeType GIF = ''image/gif''"
| "GetImageMimeType SVG = ''image/svg+xml''"
| "GetImageMimeType PDF = ''application/pdf''"
| "GetImageMimeType _ = ''image/jpeg''"

text \<open>The fields of \<^verbatim>\<open>bimg.Options\<close> that \<open>replyWithPlaceholder\<close> sets.\<close>

record BimgOptions =
  OptForce :: bool
  OptCrop :: bool
  OptEnlarge :: bool
  OptType :: BimgImageType
  OptWidth :: int
  OptHeight :: int

text \<open>
  What the replier takes as parameters: \<open>parseInt\<close> (the repository's helper for
  numeric query parameters, which is not modelled: an error message or the number),
  \<^verbatim>\<open>bimg.Resize\<close> and \<^verbatim>\<open>bimg.DetermineImageType\<close> of the transform engine, and the
  string quoting of \<^verbatim>\<open>encoding/json\<close>.
\<close>

record Lib =
  parseInt :: "string \<Rightarrow> string + int"
  bimgResize :: "string \<Rightarrow> BimgOptions \<Rightarrow> string + string"
  bimgDetermineImageType :: "string \<Rightarrow> BimgImageType"
  jsonQuote :: "string \<Rightarrow> string"

text \<open>\<^verbatim>\<open>json.Marshal\<close> of the struct: \<open>message\<close> is left out when empty.\<close>

definition JSON :: "Lib \<Rightarrow> Error \<Rightarrow> string" where
  "JSON lib e =
     ''{'' @ (if Message e = [] then [] else ''\"message\":'' @ jsonQuote lib (Message e) @ '','') @
     ''\"status\":'' @ decimal (Code e) @ ''}''"

definition sendError :: "int \<Rightarrow> string \<Rightarrow> ResponseWriter \<Rightarrow> ResponseWriter" where
  "sendError code err w =
     Write (''{\"error\":\"'' @ err @ ''\", \"status\":'' @ decimal code @ ''}'')
       (WriteHeader code (HeaderSet ''Content-Type'' ''application/json'' w))"

definition replyWithPlaceholder :: "Lib \<Rightarrow> Request \<Rightarrow> ResponseWriter \<Rightarrow> Error \<Rightarrow> ServerOptions \<Rightarrow> ResponseWriter" where
  "replyWithPlaceholder lib req w errCaller so =
     (case parseInt lib (Get (Query req) ''width'') of
        Inl err \<Rightarrow> sendError 400 err w
      | Inr width \<Rightarrow>
         (case parseInt lib (Get (Query req) ''height'') of
            Inl err \<Rightarrow> sendError 400 err w
          | Inr height \<Rightarrow>
             (let opts = \<lparr>OptForce = True, OptCrop = True, OptEnlarge = True,
                          OptType = ImageType (Get (Query req) ''type''),
                          OptWidth = width, OptHeight = height\<rparr>
              in case bimgResize lib (PlaceholderImage so) opts of
                   Inl err \<Rightarrow> sendError 400 err w
                 | Inr img \<Rightarrow>
                    (let w1 = HeaderSet ''Content-Type''
                                (GetImageMimeType (bimgDetermineImageType lib img)) w;
                         w2 = HeaderSet ''Error'' (JSON lib errCaller) w1;
                         w3 = (if PlaceholderStatus so \<noteq> 0 then WriteHeader (PlaceholderStatus so) w2
                               else WriteHeader (HTTPCode errCaller) w2)
                     in Write img w3))))"

definition ErrorReply :: "Lib \<Rightarrow> Request \<Rightarrow> ResponseWriter \<Rightarrow> Error \<Rightarrow> ServerOptions \<Rightarrow> ResponseWriter" where
  "ErrorReply lib req w err so =
     (if EnablePlaceholder so \<or> Placeholder so \<noteq> [] then replyWithPlaceholder lib req w err so
      else Write (JSON lib err)
             (WriteHeader (HTTPCode err) (HeaderSet ''Content-Type'' ''application/json'' w)))"

section \<open>Filesystem source (source_fs.go)\<close>

text \<open>
  \<^verbatim>\<open>filepath.Clean\<close> on a Unix path, after the standard library's loop: \<open>out\<close> is the
  buffer written so far, \<open>dotdot\<close> the index in it below which \<open>..\<close> cannot backtrack.
\<close>

fun backtrack :: "nat \<Rightarrow> string \<Rightarrow> nat \<Rightarrow> nat" where
  "backtrack dotdot out w =
     (if w > dotdot \<and> out ! w \<noteq> CHR ''/'' then backtrack dotdot out (w - 1) else w)"

declare backtrack.simps [simp del]

definition isDot :: "char \<Rightarrow> string \<Rightarrow> bool" where
  "isDot c cs = (c = CHR ''.'' \<and> (cs = [] \<or> hd cs = CHR ''/''))"

definition isDotDot :: "char \<Rightarrow> string \<Rightarrow> bool" where
  "isDotDot c cs =
     (c = CHR ''.'' \<and> cs \<noteq> [] \<and> hd cs = CHR ''.'' \<and> (tl cs = [] \<or> hd (tl cs) = CHR ''/''))"

text \<open>A \<open>..\<close> element: backtrack to the last separator if possible; otherwise, when the
  path is not rooted, append the \<open>..\<close> and move the barrier behind it.\<close>

definition dotdotStep :: "bool \<Rightarrow> string \<Rightarrow> nat \<Rightarrow> string \<times> nat" where
  "dotdotStep rooted out dotdot =
     (if length out > dotdot then (take (backtrack dotdot out (length out - 1)) out, dotdot)
      else if \<not> rooted then
        (let out' = (if length out > 0 then out @ ''/'' else out) @ ''..'' in (out', length out'))
      else (out, dotdot))"

definition addSeparator :: "bool \<Rightarrow> string \<Rightarrow> string" where
  "addSeparator rooted out =
     (if (rooted \<and> length out \<noteq> 1) \<or> (\<not> rooted \<and> length out \<noteq> 0) then out @ ''/'' else out)"

function cleanLoop :: "bool \<Rightarrow> string \<Rightarrow> string \<Rightarrow> nat \<Rightarrow> string" where
  "cleanLoop rooted [] out dotdot = out"
| "cleanLoop rooted (c # cs) out dotdot =
     (if c = CHR ''/'' then cleanLoop rooted cs out dotdot
      else if isDot c cs then cleanLoop rooted cs out dotdot
      else if isDotDot c cs then
        cleanLoop rooted (tl cs) (fst (dotdotStep rooted out dotdot)) (snd (dotdotStep rooted out dotdot))
      else
        cleanLoop rooted (dropWhile (\<lambda>x. x \<noteq> CHR ''/'') cs)
          (addSeparator rooted out @ c # takeWhile (\<lambda>x. x \<noteq> CHR ''/'') cs) dotdot)"
  by pat_completeness auto
termination
  by (relation "measure (\<lambda>(rooted, path, out, dotdot). length path)")
     (auto simp: less_Suc_eq_le length_dropWhile_le intro: le_trans [OF diff_le_self])

definition Clean :: "string \<Rightarrow> string" where
  "Clean path =
     (if path = [] then ''.''
      else
        (let rooted = (hd path = CHR ''/'');
             out = (if rooted then cleanLoop True (tl path) ''/'' 1 else cleanLoop False path [] 0)
         in if out = [] then ''.'' else out))"

text \<open>\<^verbatim>\<open>filepath.Join\<close>: the elements from the first non-empty one on, joined by a slash
  and cleaned; the empty string when every element is empty.\<close>

definition Join :: "string list \<Rightarrow> string" where
  "Join elem = (case dropWhile (\<lambda>e. e = []) elem of [] \<Rightarrow> [] | rest \<Rightarrow> Clean (join ''/'' rest))"

text \<open>\<^verbatim>\<open>url.QueryUnescape\<close>: the text of the first invalid escape, or the decoded
  string.\<close>

definition ishex :: "char \<Rightarrow> bool" where
  "ishex c = ((CHR ''0'' \<le> c \<and> c \<le> CHR ''9'') \<or> (CHR ''a'' \<le> c \<and> c \<le> CHR ''f'') \<or>
              (CHR ''A'' \<le> c \<and> c \<le> CHR ''F''))"

definition unhex :: "char \<Rightarrow> nat" where
  "unhex c = (if CHR ''0'' \<le> c \<and> c \<le> CHR ''9'' then of_char c - 48
              else if CHR ''a'' \<le> c \<and> c \<le> CHR ''f'' then of_char c - 97 + 10
              else if CHR ''A'' \<le> c \<and> c \<le> CHR ''F'' then of_char c - 65 + 10
              else 0)"

fun QueryUnescape :: "string \<Rightarrow> string + string" where
  "QueryUnescape [] = Inr []"
| "QueryUnescape (c # cs) =
     (if c = CHR ''%'' then
        (case cs of
           h1 # h2 # rest \<Rightarrow>
             if ishex h1 \<and> ishex h2 then
               map_sum id ((#) (char_of (16 * unhex h1 + unhex h2))) (QueryUnescape rest)
             else Inl (take 3 (c # cs))
         | _ \<Rightarrow> Inl (take 3 (c # cs)))
      else map_sum id ((#) (if c = CHR ''+'' then CHR '' '' else c)) (QueryUnescape cs))"

text \<open>The local filesystem: what opening, sizing and reading a path yields.\<close>

datatype FsEntry = NotExist | Permission | OpenFails string | StatFails string | ReadFails string
  | Contents string

definition FS_Matches :: "Request \<Rightarrow> bool" where
  "FS_Matches r = (if Method r \<noteq> ''GET'' then False else Get (Query r) ''file'' \<noteq> [])"

definition getFileParam :: "Request \<Rightarrow> goerror + string" where
  "getFileParam r =
     (let fileQuery = Get (Query r) ''file'' in
      if fileQuery = [] then Inr []
      else (case QueryUnescape fileQuery of
              Inl bad \<Rightarrow> Inl (Untyped (''invalid URL escape '' @ [CHR 0x22] @ bad @ [CHR 0x22]))
            | Inr file \<Rightarrow> Inr file))"

definition FS_read :: "(string \<Rightarrow> FsEntry) \<Rightarrow> string \<Rightarrow> (goerror + string) \<times> event list" where
  "FS_read fs file =
     ((case fs file of
         NotExist \<Rightarrow> Inl (Typed ErrInvalidFilePath)
       | Permission \<Rightarrow> Inl (Typed ErrInvalidFilePath)
       | OpenFails err \<Rightarrow> Inl (Untyped (''failed to read file: '' @ err))
       | StatFails err \<Rightarrow> Inl (Untyped (''failed to stat file: '' @ err))
       | ReadFails err \<Rightarrow> Inl (Untyped (''failed to read file contents: '' @ err))
       | Contents buf \<Rightarrow> Inr buf),
      [FileOpen file])"

definition FS_GetImage :: "SourceConfig \<Rightarrow> (string \<Rightarrow> FsEntry) \<Rightarrow> Request \<Rightarrow> (goerror + string) \<times> event list" where
  "FS_GetImage cfg fs r =
     (case getFileParam r of
        Inl err \<Rightarrow> (Inl err, [])
      | Inr file \<Rightarrow>
          if file = [] then (Inl (Typed ErrMissingParamFile), [])
          else
            (let cleanPath = Clean (Join [MountPath cfg, file]) in
             if \<not> prefix (MountPath cfg) cleanPath then (Inl (Typed ErrInvalidFilePath), [])
             else FS_read fs cleanPath))"



section \<open>Standard library: query encoding, base64, HMAC-SHA256\<close>

text \<open>
  The functions of Go's standard library that \<open>checkURLSignature\<close> calls, modelled after
  their documented behaviour on bytes.
\<close>

definition isAlnum :: "char \<Rightarrow> bool" where
  "isAlnum c = ((CHR ''a'' \<le> c \<and> c \<le> CHR ''z'') \<or> (CHR ''A'' \<le> c \<and> c \<le> CHR ''Z'') \<or>
                (CHR ''0'' \<le> c \<and> c \<le> CHR ''9''))"

definition shouldEscape :: "char \<Rightarrow> bool" where
  "shouldEscape c = (\<not> (isAlnum c \<or> c = CHR ''-'' \<or> c = CHR ''_'' \<or> c = CHR ''.'' \<or> c = CHR ''~''))"

definition upperhex :: string where
  "upperhex = ''0123456789ABCDEF''"

definition escapeChar :: "char \<Rightarrow> string" where
  "escapeChar c =
     (if c = CHR '' '' then ''+''
      else if shouldEscape c then
        [CHR ''%'', upperhex ! (of_char c div 16), upperhex ! (of_char c mod 16)]
      else [c])"

definition QueryEscape :: "string \<Rightarrow> string" where
  "QueryEscape s = concat (map escapeChar s)"

definition valuesOf :: "Values \<Rightarrow> string \<Rightarrow> string list" where
  "valuesOf v k = (case map_of v k of None \<Rightarrow> [] | Some vs \<Rightarrow> vs)"

text \<open>\<^verbatim>\<open>Values.Encode\<close>: the keys sorted, every value of a key as \<open>key=value\<close>, joined
  by \<open>&\<close>.\<close>

definition Encode :: "Values \<Rightarrow> string" where
  "Encode v =
     join ''&'' (concat (map (\<lambda>k. map (\<lambda>x. QueryEscape k @ ''='' @ QueryEscape x) (valuesOf v k))
                             (sort (remdups (map fst v)))))"

text \<open>
  \<^verbatim>\<open>base64.RawURLEncoding\<close>: the URL-safe alphabet, no padding, not strict.
  \<open>DecodeString\<close> skips carriage returns and line feeds, fails on any other byte outside
  the alphabet and on a single left-over character, and ignores the unused low bits of a
  final group of two or three characters.
\<close>

definition encodeURL :: string where
  "encodeURL = ''ABCDEFGHIJKLMNOPQRSTUVWXYZabcdefghijklmnopqrstuvwxyz0123456789-_''"

fun index_of :: "'a \<Rightarrow> 'a list \<Rightarrow> nat option" where
  "index_of c [] = None"
| "index_of c (x # xs) = (if c = x then Some 0 else map_option Suc (index_of c xs))"

definition decodeMap :: "char \<Rightarrow> nat option" where
  "decodeMap c = index_of c encodeURL"

fun sextets :: "string \<Rightarrow> nat list option" where
  "sextets [] = Some []"
| "sextets (c # cs) =
     (case decodeMap c of
        Some v \<Rightarrow> map_option ((#) v) (sextets cs)
      | None \<Rightarrow> if c = CHR 0x0A \<or> c = CHR 0x0D then sextets cs else None)"

fun quanta :: "nat list \<Rightarrow> string option" where
  "quanta (a # b # c # d # rest) =
     (let val = a * 262144 + b * 4096 + c * 64 + d
      in map_option ((@) [char_of (val div 65536), char_of (val div 256), char_of val]) (quanta rest))"
| "quanta [a, b, c] =
     (let val = a * 262144 + b * 4096 + c * 64
      in Some [char_of (val div 65536), char_of (val div 256)])"
| "quanta [a, b] = (let val = a * 262144 + b * 4096 in Some [char_of (val div 65536)])"
| "quanta [a] = None"
| "quanta [] = Some []"

definition DecodeString :: "string \<Rightarrow> string option" where
  "DecodeString s = (case sextets s of None \<Rightarrow> None | Some vs \<Rightarrow> quanta vs)"

text \<open>\<open>EncodeToString\<close> of the same encoding: what a signer produces.\<close>

fun encSextets :: "string \<Rightarrow> nat list" where
  "encSextets (x # y # z # rest) =
     (let val = of_char x * 65536 + of_char y * 256 + of_char z
      in [val div 262144, val div 4096 mod 64, val div 64 mod 64, val mod 64] @ encSextets rest)"
| "encSextets [x, y] =
     (let val = of_char x * 65536 + of_char y * 256
      in [val div 262144, val div 4096 mod 64, val div 64 mod 64])"
| "encSextets [x] = (let val = of_char x * 65536 in [val div 262144, val div 4096 mod 64])"
| "encSextets [] = []"

definition EncodeToString :: "string \<Rightarrow> string" where
  "EncodeToString bs = map (\<lambda>v. encodeURL ! v) (encSextets bs)"

text \<open>SHA-256 (FIPS 180-4) on 32-bit words and HMAC (RFC 2104) over it. The round
  constants and the initial hash value are written in decimal.\<close>

type_synonym w32 = "32 word"

definition rotr :: "nat \<Rightarrow> w32 \<Rightarrow> w32" where
  "rotr n x = (drop_bit n x) OR (push_bit (32 - n) x)"

definition Ch :: "w32 \<Rightarrow> w32 \<Rightarrow> w32 \<Rightarrow> w32" where
  "Ch x y z = (x AND y) XOR (NOT x AND z)"

definition Maj :: "w32 \<Rightarrow> w32 \<Rightarrow> w32 \<Rightarrow> w32" where
  "Maj x y z = (x AND y) XOR (x AND z) XOR (y AND z)"

definition bsig0 :: "w32 \<Rightarrow> w32" where
  "bsig0 x = rotr 2 x XOR rotr 13 x XOR rotr 22 x"

definition bsig1 :: "w32 \<Rightarrow> w32" where
  "bsig1 x = rotr 6 x XOR rotr 11 x XOR rotr 25 x"

definition ssig0 :: "w32 \<Rightarrow> w32" where
  "ssig0 x = rotr 7 x XOR rotr 18 x XOR drop_bit 3 x"

definition ssig1 :: "w32 \<Rightarrow> w32" where
  "ssig1 x = rotr 17 x XOR rotr 19 x XOR drop_bit 10 x"

definition K256 :: "w32 list" where
  "K256 = [
     1116352408, 1899447441, 3049323471, 3921009573, 961987163, 1508970993,
     2453635748, 2870763221, 3624381080, 310598401, 607225278, 1426881987,
     1925078388, 2162078206, 2614888103, 3248222580, 3835390401, 4022224774,
     264347078, 604807628, 770255983, 1249150122, 1555081692, 1996064986,
     2554220882, 2821834349, 2952996808, 3210313671, 3336571891, 3584528711,
     113926993, 338241895, 666307205, 773529912, 1294757372, 1396182291,
     1695183700, 1986661051, 2177026350, 2456956037, 2730485921, 2820302411,
     3259730800, 3345764771, 3516065817, 3600352804, 4094571909, 275423344,
     430227734, 506948616, 659060556, 883997877, 958139571, 1322822218,
     1537002063, 1747873779, 1955562222, 2024104815, 2227730452, 2361852424,
     2428436474, 2756734187, 3204031479, 3329325298]"

definition H256 :: "w32 list" where
  "H256 = [
     1779033703, 3144134277, 1013904242, 2773480762, 1359893119, 2600822924,
     528734635, 1541459225]"

definition be32 :: "string \<Rightarrow> w32" where
  "be32 bs = foldl (\<lambda>acc c. push_bit 8 acc OR of_nat (of_char c)) 0 bs"

definition bytes32 :: "w32 \<Rightarrow> string" where
  "bytes32 x = map (\<lambda>i. char_of (unat (drop_bit (8 * i) x AND 0xff))) [3, 2, 1, 0]"

definition be64_bytes :: "nat \<Rightarrow> string" where
  "be64_bytes n =
     map (\<lambda>i. char_of (unat (drop_bit (8 * i) (of_nat n :: 64 word) AND 0xff))) [7, 6, 5, 4, 3, 2, 1, 0]"

definition pad :: "string \<Rightarrow> string" where
  "pad m = m @ [char_of (0x80::nat)] @
           replicate ((119 - length m mod 64) mod 64) (char_of (0::nat)) @ be64_bytes (8 * length m)"

fun chunks :: "nat \<Rightarrow> 'a list \<Rightarrow> 'a list list" where
  "chunks n xs = (if n = 0 \<or> xs = [] then [] else take n xs # chunks n (drop n xs))"

fun schedule :: "nat \<Rightarrow> w32 list \<Rightarrow> w32 list" where
  "schedule 0 ws = ws"
| "schedule (Suc k) ws =
     (let t = length ws
      in schedule k (ws @ [ssig1 (ws ! (t - 2)) + ws ! (t - 7) + ssig0 (ws ! (t - 15)) + ws ! (t - 16)]))"

fun sha_round :: "w32 list \<Rightarrow> (w32 \<times> w32) \<Rightarrow> w32 list" where
  "sha_round [a, b, c, d, e, f, g, h] (k, w) =
     (let t1 = h + bsig1 e + Ch e f g + k + w; t2 = bsig0 a + Maj a b c
      in [t1 + t2, a, b, c, d + t1, e, f, g])"
| "sha_round st _ = st"

definition compress :: "w32 list \<Rightarrow> string \<Rightarrow> w32 list" where
  "compress hs block =
     (let ws = schedule 48 (map be32 (chunks 4 block))
      in map2 (+) hs (foldl sha_round hs (zip K256 ws)))"

definition sha256 :: "string \<Rightarrow> string" where
  "sha256 m = concat (map bytes32 (foldl compress H256 (chunks 64 (pad m))))"

definition hmac_key :: "string \<Rightarrow> string" where
  "hmac_key k = (let k' = (if length k > 64 then sha256 k else k)
                 in k' @ replicate (64 - length k') (char_of (0::nat)))"

definition xor_pad :: "nat \<Rightarrow> string \<Rightarrow> string" where
  "xor_pad p k = map (\<lambda>c. char_of ((of_char c :: nat) XOR p)) k"

definition hmac_sha256 :: "string \<Rightarrow> string \<Rightarrow> string" where
  "hmac_sha256 key msg =
     sha256 (xor_pad 0x5c (hmac_key key) @ sha256 (xor_pad 0x36 (hmac_key key) @ msg))"

section \<open>Request-body source (source_body.go) and the source registry (source.go)\<close>

definition maxMemory :: nat where
  "maxMemory = 67108864"

definition Body_Matches :: "Request \<Rightarrow> bool" where
  "Body_Matches r = (if Method r = ''POST'' \<or> Method r = ''PUT'' then True else False)"

text \<open>A failure of \<^verbatim>\<open>ParseMultipartForm\<close> or of \<^verbatim>\<open>FormFile\<close> is the \<open>Inl\<close> of
  the request's \<open>FormFile\<close>.\<close>

definition readFormBody :: "Request \<Rightarrow> goerror + string" where
  "readFormBody r =
     (case FormFile r ''file'' of
        Inl err \<Rightarrow> Inl (Untyped err)
      | Inr content \<Rightarrow>
          if length content > maxMemory then Inl (Untyped ''entity too large'')
          else if length content = 0 then Inl (Typed ErrEmptyBody)
          else Inr content)"

definition readRawBody :: "Request \<Rightarrow> goerror + string" where
  "readRawBody r =
     (case RawBody r of
        Inl err \<Rightarrow> Inl (Untyped err)
      | Inr body \<Rightarrow>
          if length body > maxMemory then Inl (Untyped ''entity too large'')
          else if length body = 0 then Inl (Typed ErrEmptyBody)
          else Inr body)"

definition Body_GetImage :: "Request \<Rightarrow> (goerror + string) \<times> event list" where
  "Body_GetImage r =
     (if prefix ''multipart/'' (ReqHeader r ''Content-Type'') then (readFormBody r, [])
      else (readRawBody r, []))"

text \<open>
  The three registered sources (keys \<open>http\<close>, \<open>payload\<close>, \<open>fs\<close>) and the dispatch of the
  \<open>ImageSource\<close> interface. \<open>World\<close> is what lies outside the process: the constant
  \<open>Version\<close>, \<^verbatim>\<open>url.Parse\<close>, the network and the filesystem.
\<close>

datatype ImageSourceType = SourceHTTP | SourceBody | SourceFS

record World =
  Version :: string
  UrlParse :: "string \<Rightarrow> URL option"
  Network :: Remote
  Filesystem :: "string \<Rightarrow> FsEntry"

fun Matches :: "ImageSourceType \<Rightarrow> Request \<Rightarrow> bool" where
  "Matches SourceHTTP r = HTTP_Matches r"
| "Matches SourceBody r = Body_Matches r"
| "Matches SourceFS r = FS_Matches r"

fun GetImage :: "World \<Rightarrow> SourceConfig \<Rightarrow> ImageSourceType \<Rightarrow> Request \<Rightarrow> (goerror + string) \<times> event list" where
  "GetImage world cfg SourceHTTP r = HTTP_GetImage (Version world) (UrlParse world) cfg (Network world) r"
| "GetImage world cfg SourceBody r = Body_GetImage r"
| "GetImage world cfg SourceFS r = FS_GetImage cfg (Filesystem world) r"

text \<open>\<open>MatchSource\<close> ranges over the registry's map; \<open>sources\<close> is the map's contents in
  the order this iteration visits them.\<close>

definition MatchSource :: "ImageSourceType list \<Rightarrow> Request \<Rightarrow> ImageSourceType option" where
  "MatchSource sources req = find (\<lambda>source. Matches source req) sources"

section \<open>The image handler and the middleware chain (middleware.go)\<close>

record Image =
  ImgBody :: string
  Mime :: string

text \<open>An operation on a buffer with options of type \<open>'o\<close> (the struct \<open>ImageOptions\<close>,
  whose fields are not modelled).\<close>

type_synonym 'o ImageOperation = "string \<Rightarrow> 'o \<Rightarrow> goerror + Image"

definition getImageFromURL :: "World \<Rightarrow> SourceConfig \<Rightarrow> ImageSourceType list \<Rightarrow> Request \<Rightarrow> (goerror + string) \<times> event list" where
  "getImageFromURL world cfg sources r =
     (case MatchSource sources r of
        None \<Rightarrow> (Inl (Untyped ''missing image source''), [])
      | Some source \<Rightarrow> GetImage world cfg source r)"

definition getImageFromRequest :: "Request \<Rightarrow> (goerror + string) \<times> event list" where
  "getImageFromRequest r =
     (case FormFile r ''file'' of Inl err \<Rightarrow> (Inl (Untyped err), []) | Inr content \<Rightarrow> (Inr content, []))"

text \<open>
  \<open>createImageHandler\<close>. \<open>buildParams\<close> is the repository's \<open>buildParamsFromQuery\<close>,
  taken as a parameter; \<open>cfg\<close> and \<open>sources\<close> are the registry as \<open>LoadSources\<close> left
  it.
\<close>

definition createImageHandler ::
  "Lib \<Rightarrow> World \<Rightarrow> SourceConfig \<Rightarrow> ImageSourceType list \<Rightarrow> (Values \<Rightarrow> goerror + 'o) \<Rightarrow>
   ServerOptions \<Rightarrow> 'o ImageOperation \<Rightarrow> Handler" where
  "createImageHandler lib world cfg sources buildParams so operation r w0 =
     (let got = (if Method r = ''GET'' then getImageFromURL world cfg sources r
                 else getImageFromRequest r);
          w = logEvents (snd got) w0
      in case fst got of
           Inl err \<Rightarrow>
             ErrorReply lib r w (NewError (''Error getting image: '' @ errorString err) 400) so
         | Inr buf \<Rightarrow>
             if length buf = 0 then ErrorReply lib r w ErrEmptyBody so
             else
               (case buildParams (Query r) of
                  Inl err \<Rightarrow>
                    ErrorReply lib r w
                      (NewError (''Error parsing parameters: '' @ errorString err) 400) so
                | Inr opts \<Rightarrow>
                    (case operation buf opts of
                       Inl err \<Rightarrow>
                         ErrorReply lib r (logEvents [OperationCall buf] w)
                           (NewError (''Error processing image: '' @ errorString err) 400) so
                     | Inr img \<Rightarrow>
                         Write (ImgBody img)
                           (HeaderSet ''Content-Length'' (decimal (int (length (ImgBody img))))
                              (HeaderSet ''Content-Type'' (Mime img)
                                 (logEvents [OperationCall buf] w))))))"

definition IsValid :: "string list \<Rightarrow> Request \<Rightarrow> bool" where
  "IsValid e r = (let endpoint = last (split CHR ''/'' (UrlPath r)) in endpoint \<notin> set e)"

definition isPublicPath :: "string \<Rightarrow> bool" where
  "isPublicPath path = (path = ''/'' \<or> path = ''/health'' \<or> path = ''/form'')"

definition getCacheControl :: "int \<Rightarrow> string" where
  "getCacheControl ttl =
     (if ttl = 0 then ''private, no-cache, no-store, must-revalidate''
      else ''public, s-maxage='' @ decimal ttl @ '', max-age='' @ decimal ttl @ '', no-transform'')"

text \<open>
  What the chain takes from outside: the rate limiter and the CORS wrapper of the two
  libraries, the \<open>Server\<close> header's text, and the formatted expiry time for a TTL.
\<close>

record Wrappers =
  throttleRequests :: "ServerOptions \<Rightarrow> Handler \<Rightarrow> Handler"
  corsHandler :: "Handler \<Rightarrow> Handler"
  serverHeader :: string
  expiresAfter :: "int \<Rightarrow> string"

definition validateEndpoints :: "Lib \<Rightarrow> Handler \<Rightarrow> ServerOptions \<Rightarrow> Handler" where
  "validateEndpoints lib next so r w =
     (if IsValid (Endpoints so) r then next r w else ErrorReply lib r w ErrNotImplemented so)"

definition authorize :: "Lib \<Rightarrow> Handler \<Rightarrow> ServerOptions \<Rightarrow> Handler" where
  "authorize lib next so r w =
     (let key = (if ReqHeader r ''API-Key'' = [] then Get (Query r) ''key'' else ReqHeader r ''API-Key'')
      in if key \<noteq> APIKey so then ErrorReply lib r w ErrInvalidAPIKey so else next r w)"

definition addDefaultHeaders :: "Wrappers \<Rightarrow> Handler \<Rightarrow> Handler" where
  "addDefaultHeaders wr next r w = next r (HeaderSet ''Server'' (serverHeader wr) w)"

definition addCacheHeaders :: "Wrappers \<Rightarrow> Handler \<Rightarrow> int \<Rightarrow> Handler" where
  "addCacheHeaders wr next ttl r w =
     (if Method r = ''GET'' \<and> \<not> isPublicPath (UrlPath r) then
        next r (HeaderSet ''Cache-Control'' (getCacheControl ttl)
                 (HeaderSet ''Expires'' (expiresAfter wr ttl) w))
      else next r w)"

definition validateRequest :: "Lib \<Rightarrow> Handler \<Rightarrow> ServerOptions \<Rightarrow> Handler" where
  "validateRequest lib next so r w =
     (if Method r \<noteq> ''GET'' \<and> Method r \<noteq> ''POST'' then ErrorReply lib r w ErrMethodNotAllowed so
      else next r w)"

definition validateImageRequest :: "Lib \<Rightarrow> Handler \<Rightarrow> ServerOptions \<Rightarrow> Handler" where
  "validateImageRequest lib next so r w =
     (if Method r = ''GET'' then
        (if isPublicPath (UrlPath r) then next r w
         else if Mount so = [] \<and> \<not> EnableURLSource so then ErrorReply lib r w ErrGetMethodNotAllowed so
         else next r w)
      else next r w)"

definition checkURLSignature :: "Lib \<Rightarrow> Handler \<Rightarrow> ServerOptions \<Rightarrow> Handler" where
  "checkURLSignature lib next so r w =
     (let query = Query r;
          sign = Get query ''sign'';
          query' = Del query ''sign'';
          expectedSign = hmac_sha256 (URLSignatureKey so) (UrlPath r @ Encode query')
      in case DecodeString sign of
           None \<Rightarrow> ErrorReply lib r w ErrInvalidURLSignature so
         | Some urlSign \<Rightarrow>
             if urlSign \<noteq> expectedSign then ErrorReply lib r w ErrURLSignatureMismatch so
             else next r w)"

definition Middleware :: "Lib \<Rightarrow> Wrappers \<Rightarrow> Handler \<Rightarrow> ServerOptions \<Rightarrow> Handler" where
  "Middleware lib wr fn so =
     (let next0 = fn;
          next1 = (if length (Endpoints so) > 0 then validateEndpoints lib next0 so else next0);
          next2 = (if Concurrency so > 0 then throttleRequests wr so next1 else next1);
          next3 = (if CORS so then corsHandler wr next2 else next2);
          next4 = (if APIKey so \<noteq> [] then authorize lib next3 so else next3);
          next5 = (if HTTPCacheTTL so \<ge> 0 then addCacheHeaders wr next4 (HTTPCacheTTL so) else next4)
      in validateRequest lib (addDefaultHeaders wr next5) so)"

definition ImageMiddleware ::
  "Lib \<Rightarrow> Wrappers \<Rightarrow> World \<Rightarrow> SourceConfig \<Rightarrow> ImageSourceType list \<Rightarrow> (Values \<Rightarrow> goerror + 'o) \<Rightarrow>
   ServerOptions \<Rightarrow> 'o ImageOperation \<Rightarrow> Handler" where
  "ImageMiddleware lib wr world cfg sources buildParams so operation =
     (let fn = createImageHandler lib world cfg sources buildParams so operation;
          handler = validateImageRequest lib (Middleware lib wr fn so) so
      in if EnableURLSignature so then checkURLSignature lib handler so else handler)"

section \<open>The operation pipeline (Pipeline in image.go)\<close>

text \<open>
  A step of \<open>o.Operations\<close>: its name, its parameters (of a type \<open>'p\<close> this model does
  not look into) and its flag. The keys of \<open>OperationsMap\<close> are those of the source; the
  functions behind them (\<open>Crop\<close>, \<open>Resize\<close>, ...) run the transform engine and are taken
  as \<open>impl\<close>, by name.
\<close>

record 'p PipelineOperation =
  Name :: string
  Params :: 'p
  IgnoreFailure :: bool

definition OperationNames :: "string list" where
  "OperationNames = [''crop'', ''resize'', ''enlarge'', ''extract'', ''rotate'', ''autorotate'',
     ''flip'', ''flop'', ''thumbnail'', ''zoom'', ''convert'', ''watermark'', ''watermarkImage'',
     ''blur'', ''smartcrop'', ''fit'']"

definition OperationsMap :: "(string \<Rightarrow> 'o ImageOperation) \<Rightarrow> string \<Rightarrow> 'o ImageOperation option" where
  "OperationsMap impl name = (if name \<in> set OperationNames then Some (impl name) else None)"

text \<open>
  The loop of \<open>Pipeline\<close> from index \<open>i\<close> on, with the running image. \<open>build\<close> is
  the repository's \<open>buildParamsFromOperation\<close>, taken as a parameter. Every invocation
  of a step's operation is logged.
\<close>

fun pipelineLoop ::
  "(string \<Rightarrow> 'o ImageOperation) \<Rightarrow> ('p PipelineOperation \<Rightarrow> goerror + 'o) \<Rightarrow> nat \<Rightarrow> Image \<Rightarrow>
   'p PipelineOperation list \<Rightarrow> (goerror + Image) \<times> event list" where
  "pipelineLoop impl build i img [] = (Inr img, [])"
| "pipelineLoop impl build i img (operation # rest) =
     (case OperationsMap impl (Name operation) of
        None \<Rightarrow> (Inl (Typed (NewError (''Unsupported operation: '' @ Name operation) 400)), [])
      | Some op \<Rightarrow>
         (case build operation of
            Inl err \<Rightarrow>
              (Inl (Untyped (''pipeline operation '' @ decimal (int i + 1) @ '' failed: '' @ errorString err)), [])
          | Inr opts \<Rightarrow>
             (case op (ImgBody img) opts of
                Inl err \<Rightarrow>
                  if \<not> IgnoreFailure operation then
                    (Inl err, [TransformCall (i + 1) (Name operation) (ImgBody img)])
                  else
                    (let (res, evs) = pipelineLoop impl build (i + 1) img rest
                     in (res, TransformCall (i + 1) (Name operation) (ImgBody img) # evs))
              | Inr result \<Rightarrow>
                  (let (res, evs) = pipelineLoop impl build (i + 1) result rest
                   in (res, TransformCall (i + 1) (Name operation) (ImgBody img) # evs)))))"

definition Pipeline ::
  "(string \<Rightarrow> 'o ImageOperation) \<Rightarrow> ('p PipelineOperation \<Rightarrow> goerror + 'o) \<Rightarrow> string \<Rightarrow>
   'p PipelineOperation list \<Rightarrow> (goerror + Image) \<times> event list" where
  "Pipeline impl build buf operations =
     (if length operations = 0 then
        (Inl (Typed (NewError ''Missing pipeline operations'' 400)), [])
      else if length operations > 10 then
        (Inl (Typed (NewError ''Maximum pipeline operations (10) exceeded'' 400)), [])
      else pipelineLoop impl build 0 \<lparr>ImgBody = buf, Mime = []\<rparr> operations)"

text \<open>The position a logged pipeline invocation carries.\<close>

fun callPosition :: "event \<Rightarrow> nat" where
  "callPosition (TransformCall pos name buf) = pos"
| "callPosition _ = 0"

section \<open>Sample inputs\<close>

definition sample_request :: Request where
  "sample_request = \<lparr>Method = ''GET'', UrlPath = ''/resize'',
     Query = [(''url'', [''http://blocked.example/x.jpg'']), (''width'', [''100''])],
     ReqHeader = (\<lambda>h. []), RawBody = Inr [], FormFile = (\<lambda>f. Inl ''http: no such file'')\<rparr>"

definition sample_parse :: "string \<Rightarrow> URL option" where
  "sample_parse s = (if s = ''http://blocked.example/x.jpg''
     then Some \<lparr>Host = ''blocked.example'', Path = ''/x.jpg'', Str = s\<rparr> else None)"

definition sample_config :: SourceConfig where
  "sample_config = \<lparr>AuthForwarding = False, Authorization = [], MountPath = ''/srv/images'',
     ForwardHeaders = [],
     AllowedOrigins = [\<lparr>Host = ''images.example.org'', Path = ''/'', Str = ''http://images.example.org/''\<rparr>,
                       \<lparr>Host = ''*.cdn.example.org'', Path = ''/img'', Str = ''http://*.cdn.example.org/img''\<rparr>],
     MaxAllowedSize = 4\<rparr>"

definition file_request :: "string \<Rightarrow> Request" where
  "file_request f = \<lparr>Method = ''GET'', UrlPath = ''/resize'',
     Query = [(''file'', [f]), (''width'', [''100''])],
     ReqHeader = (\<lambda>h. []), RawBody = Inr [], FormFile = (\<lambda>f. Inl ''http: no such file'')\<rparr>"

definition sample_fs :: "string \<Rightarrow> FsEntry" where
  "sample_fs path =
     (if path = ''/srv/images/a.jpg'' then Contents ''JPEG-A''
      else if path = ''/srv/images-old/b.jpg'' then Contents ''JPEG-B''
      else if path = ''/etc/passwd'' then Contents ''root:x:0:0''
      else NotExist)"

text \<open>
  A stand-in for the transform engine, to run pipelines on: \<open>resize\<close> fails without a
  width or a height, as \<open>Resize\<close> does; every other operation succeeds and marks its
  output with its name. Parameters are key-value pairs; building them fails on a
  non-numeric width.
\<close>

definition sample_impl :: "string \<Rightarrow> (string \<times> string) list ImageOperation" where
  "sample_impl name buf opts =
     (if name = ''resize'' \<and> map_of opts ''width'' = None \<and> map_of opts ''height'' = None
      then Inl (Typed (NewError ''Missing required param: height or width'' 400))
      else Inr \<lparr>ImgBody = name @ ''('' @ buf @ '')'', Mime = ''image/jpeg''\<rparr>)"

definition sample_build :: "(string \<times> string) list PipelineOperation \<Rightarrow> goerror + (string \<times> string) list" where
  "sample_build step =
     (if map_of (Params step) ''width'' = Some ''abc'' then Inl (Untyped ''invalid width'')
      else Inr (Params step))"

definition step :: "string \<Rightarrow> (string \<times> string) list \<Rightarrow> bool \<Rightarrow> (string \<times> string) list PipelineOperation" where
  "step name params ignore = \<lparr>Name = name, Params = params, IgnoreFailure = ignore\<rparr>"

text \<open>
  A remote server that does not declare a length on \<open>HEAD\<close> (content length \<open>-1\<close>) and
  answers \<open>GET\<close> with a ten-byte body; a URL the sample allow-list admits.
\<close>

definition sample_remote :: Remote where
  "sample_remote out =
     (if OutMethod out = ''HEAD''
      then Inr \<lparr>StatusCode = 200, ContentLength = - 1, RespBody = [], ReadErr = None\<rparr>
      else Inr \<lparr>StatusCode = 200, ContentLength = 10, RespBody = ''0123456789'', ReadErr = None\<rparr>)"

definition big_url :: URL where
  "big_url = \<lparr>Host = ''images.example.org'', Path = ''/big.jpg'', Str = ''http://images.example.org/big.jpg''\<rparr>"

definition url_request :: Request where
  "url_request = \<lparr>Method = ''GET'', UrlPath = ''/resize'',
     Query = [(''url'', [''http://images.example.org/big.jpg'']), (''width'', [''100''])],
     ReqHeader = (\<lambda>h. []), RawBody = Inr [], FormFile = (\<lambda>f. Inl ''http: no such file'')\<rparr>"

definition sample_world :: World where
  "sample_world = \<lparr>Version = ''1.2.4'',
     UrlParse = (\<lambda>s. if s = ''http://images.example.org/big.jpg'' then Some big_url else None),
     Network = sample_remote, Filesystem = sample_fs\<rparr>"

text \<open>The sample configuration with no maximum size, and a world whose remote server
  answers every request with status 404.\<close>

definition unlimited_config :: SourceConfig where
  "unlimited_config = sample_config\<lparr>MaxAllowedSize := 0\<rparr>"

definition absent_remote :: Remote where
  "absent_remote out = Inr \<lparr>StatusCode = 404, ContentLength = 9, RespBody = ''not found'', ReadErr = None\<rparr>"

definition absent_world :: World where
  "absent_world = sample_world\<lparr>Network := absent_remote\<rparr>"

text \<open>A response writer nothing was written to, and a request that uploads a file.\<close>

definition emptyWriter :: ResponseWriter where
  "emptyWriter = \<lparr>Hdr = (\<lambda>k. None), Status = None, Body = [], Log = []\<rparr>"

definition upload_request :: "string \<Rightarrow> string \<Rightarrow> Request" where
  "upload_request method content = \<lparr>Method = method, UrlPath = ''/resize'',
     Query = [(''width'', [''100''])],
     ReqHeader = (\<lambda>h. if h = ''Content-Type'' then ''multipart/form-data; boundary=x'' else []),
     RawBody = Inr [], FormFile = (\<lambda>f. if f = ''file'' then Inr content else Inl ''http: no such file'')\<rparr>"

text \<open>
  Stand-ins for what the replier and the handler take from outside: a \<open>parseInt\<close> that
  reads decimal digits (zero for the empty string), a resize that hands the buffer back and
  fails on an empty one, JPEG as the detected type, quoting without escapes, and
  parameters built as the first value of every key.
\<close>

definition sample_parseInt :: "string \<Rightarrow> string + int" where
  "sample_parseInt s =
     (if \<forall>c \<in> set s. CHR ''0'' \<le> c \<and> c \<le> CHR ''9''
      then Inr (foldl (\<lambda>n c. 10 * n + (int (of_char c) - 48)) 0 s)
      else Inl (''invalid number: '' @ s))"

definition sample_lib :: Lib where
  "sample_lib = \<lparr>parseInt = sample_parseInt,
     bimgResize = (\<lambda>buf opts. if buf = [] then Inl ''Unsupported image format'' else Inr buf),
     bimgDetermineImageType = (\<lambda>buf. JPEG),
     jsonQuote = (\<lambda>s. [CHR 0x22] @ s @ [CHR 0x22])\<rparr>"

definition sample_buildParams :: "Values \<Rightarrow> goerror + (string \<times> string) list" where
  "sample_buildParams q = Inr (map (\<lambda>kv. (fst kv, Get q (fst kv))) q)"

definition sample_options :: ServerOptions where
  "sample_options = \<lparr>Burst = 100, Concurrency = 0, HTTPCacheTTL = - 1, CORS = False,
     EnableURLSource = True, EnablePlaceholder = False, EnableURLSignature = False,
     URLSignatureKey = ''secret'', APIKey = [], Mount = ''/srv/images'', Placeholder = [],
     PlaceholderStatus = 0, PlaceholderImage = ''PLACEHOLDER'', Endpoints = []\<rparr>"

definition sample_wrappers :: Wrappers where
  "sample_wrappers = \<lparr>throttleRequests = (\<lambda>so next. next), corsHandler = (\<lambda>next. next),
     serverHeader = ''imaginary 1.2.4 (bimg 1.1.9)'', expiresAfter = (\<lambda>ttl. ''Thu, 01 Jan 2026 00:00:00 GMT'')\<rparr>"

text \<open>A \<open>PUT\<close> (or other) request with the image as its raw body, and options with
  placeholder mode on.\<close>

definition raw_request :: "string \<Rightarrow> string \<Rightarrow> Values \<Rightarrow> Request" where
  "raw_request method content q = \<lparr>Method = method, UrlPath = ''/crop'', Query = q,
     ReqHeader = (\<lambda>h. if h = ''Content-Type'' then ''image/jpeg'' else []),
     RawBody = Inr content,
     FormFile = (\<lambda>f. Inl ''request Content-Type is not multipart/form-data'')\<rparr>"

definition placeholder_options :: ServerOptions where
  "placeholder_options = sample_options\<lparr>EnablePlaceholder := True\<rparr>"

text \<open>A handler that answers \<open>OK\<close>, options that enforce URL signatures with the key
  \<open>secret\<close>, and a request for \<open>/resize?width=100\<close> carrying a signature.\<close>

definition ok_handler :: Handler where
  "ok_handler r w = Write ''OK'' w"

definition signing_options :: ServerOptions where
  "signing_options = sample_options\<lparr>EnableURLSignature := True\<rparr>"

definition signed_request :: "string \<Rightarrow> Request" where
  "signed_request sign = \<lparr>Method = ''GET'', UrlPath = ''/resize'',
     Query = [(''sign'', [sign]), (''width'', [''100''])],
     ReqHeader = (\<lambda>h. []), RawBody = Inr [], FormFile = (\<lambda>f. Inl ''http: no such file'')\<rparr>"

section \<open>Verification: remote HTTP source\<close>

text \<open>\<^verbatim>\<open>Header.Set\<close> with a key in another case replaces the value held under the
  canonical key.\<close>

lemma setHeader_canonical_key:
  "setHeader ''authorization'' ''Bearer b''
     [(''User-Agent'', ''imaginary/1.2.4''), (''Authorization'', ''Bearer a'')] =
     [(''User-Agent'', ''imaginary/1.2.4''), (''Authorization'', ''Bearer b'')]"
  by code_simp

lemma CanonicalMIMEHeaderKey_samples:
  "CanonicalMIMEHeaderKey ''x-forward-AUTHORIZATION'' = ''X-Forward-Authorization''"
  "CanonicalMIMEHeaderKey ''API-Key'' = ''Api-Key''"
  "CanonicalMIMEHeaderKey ''my header'' = ''my header''"
  by code_simp+

lemma originAllows_spec: "originAllows entry url = spec_origin_matches entry url"
proof (cases "prefix ''*.'' (Host entry)")
  case True
  then obtain rest where h: "Host entry = CHR ''*'' # CHR ''.'' # rest"
    by (auto simp: prefix_def)
  show ?thesis
    by (auto simp: spec_origin_matches_def h)
next
  case False
  then show ?thesis
    by (auto simp: spec_origin_matches_def)
qed

lemma restrictLoop_iff: "restrictLoop origins url \<longleftrightarrow> (\<forall>entry \<in> set origins. \<not> originAllows entry url)"
  by (induction origins) auto

lemma shouldRestrictOrigin_iff:
  "shouldRestrictOrigin cfg url \<longleftrightarrow>
     AllowedOrigins cfg \<noteq> [] \<and> (\<forall>entry \<in> set (AllowedOrigins cfg). \<not> spec_origin_matches entry url)"
  unfolding shouldRestrictOrigin_def restrictLoop_iff originAllows_spec
  by auto

text \<open>
  Claim C2. With a non-empty allow-list, a URL that no entry matches (exact host, or
  wildcard-subdomain host, together with the path prefix) is answered by an error and the
  log of outbound requests is empty; an unparsable URL likewise. The origin check restricts
  exactly when the list is non-empty and no entry matches, so with an empty list every
  origin goes on to the fetch.
\<close>

theorem HTTP_GetImage_allow_list:
  "(AllowedOrigins cfg \<noteq> [] \<and> parse (Get (Query req) ''url'') = Some u \<and>
      (\<forall>entry \<in> set (AllowedOrigins cfg). \<not> spec_origin_matches entry u)
      \<longrightarrow> HTTP_GetImage version parse cfg remote req =
            (Inl (Untyped (''not allowed remote URL origin: '' @ Host u @ Path u)), [])) \<and>
   (parse (Get (Query req) ''url'') = None
      \<longrightarrow> HTTP_GetImage version parse cfg remote req = (Inl (Typed ErrInvalidImageURL), [])) \<and>
   (shouldRestrictOrigin cfg u \<longleftrightarrow>
      AllowedOrigins cfg \<noteq> [] \<and> (\<forall>entry \<in> set (AllowedOrigins cfg). \<not> spec_origin_matches entry u)) \<and>
   (AllowedOrigins cfg = [] \<and> parse (Get (Query req) ''url'') = Some u
      \<longrightarrow> HTTP_GetImage version parse cfg remote req = fetchImage version cfg remote u req)"
proof (intro conjI impI)
  assume "AllowedOrigins cfg \<noteq> [] \<and> parse (Get (Query req) ''url'') = Some u \<and>
      (\<forall>entry \<in> set (AllowedOrigins cfg). \<not> spec_origin_matches entry u)"
  then have "parse (Get (Query req) ''url'') = Some u" and "shouldRestrictOrigin cfg u"
    by (simp_all add: shouldRestrictOrigin_iff)
  then show "HTTP_GetImage version parse cfg remote req =
      (Inl (Untyped (''not allowed remote URL origin: '' @ Host u @ Path u)), [])"
    by (simp add: HTTP_GetImage_def)
next
  assume "parse (Get (Query req) ''url'') = None"
  then show "HTTP_GetImage version parse cfg remote req = (Inl (Typed ErrInvalidImageURL), [])"
    by (simp add: HTTP_GetImage_def)
next
  show "shouldRestrictOrigin cfg u \<longleftrightarrow>
      AllowedOrigins cfg \<noteq> [] \<and> (\<forall>entry \<in> set (AllowedOrigins cfg). \<not> spec_origin_matches entry u)"
    by (rule shouldRestrictOrigin_iff)
next
  assume "AllowedOrigins cfg = [] \<and> parse (Get (Query req) ''url'') = Some u"
  then show "HTTP_GetImage version parse cfg remote req = fetchImage version cfg remote u req"
    by (simp add: HTTP_GetImage_def shouldRestrictOrigin_def)
qed

theorem HTTP_GetImage_allow_list_witness:
  "AllowedOrigins sample_config \<noteq> [] \<and>
   sample_parse (Get (Query sample_request) ''url'') =
     Some \<lparr>Host = ''blocked.example'', Path = ''/x.jpg'', Str = ''http://blocked.example/x.jpg''\<rparr> \<and>
   \<not> spec_origin_matches (AllowedOrigins sample_config ! 0)
       \<lparr>Host = ''blocked.example'', Path = ''/x.jpg'', Str = ''http://blocked.example/x.jpg''\<rparr> \<and>
   \<not> spec_origin_matches (AllowedOrigins sample_config ! 1)
       \<lparr>Host = ''blocked.example'', Path = ''/x.jpg'', Str = ''http://blocked.example/x.jpg''\<rparr> \<and>
   HTTP_GetImage ''1.2.4'' sample_parse sample_config (\<lambda>out. Inl ''unreachable'') sample_request =
     (Inl (Untyped ''not allowed remote URL origin: blocked.example/x.jpg''), [])"
proof -
  let ?u = "\<lparr>Host = ''blocked.example'', Path = ''/x.jpg'', Str = ''http://blocked.example/x.jpg''\<rparr>"
  have p: "sample_parse (Get (Query sample_request) ''url'') = Some ?u"
    by (simp add: sample_parse_def sample_request_def Get_def)
  have n0: "\<not> spec_origin_matches (AllowedOrigins sample_config ! 0) ?u"
    by (simp add: sample_config_def spec_origin_matches_def)
  have n1: "\<not> spec_origin_matches (AllowedOrigins sample_config ! 1) ?u"
    by (simp add: sample_config_def spec_origin_matches_def suffix_def)
  have ne: "AllowedOrigins sample_config \<noteq> []"
    by (simp add: sample_config_def)
  have all: "\<forall>entry \<in> set (AllowedOrigins sample_config). \<not> spec_origin_matches entry ?u"
    using n0 n1 by (simp add: sample_config_def)
  from HTTP_GetImage_allow_list
    [of sample_config sample_parse sample_request ?u "''1.2.4''" "\<lambda>out. Inl ''unreachable''"]
  have "HTTP_GetImage ''1.2.4'' sample_parse sample_config (\<lambda>out. Inl ''unreachable'') sample_request =
     (Inl (Untyped (''not allowed remote URL origin: '' @ Host ?u @ Path ?u)), [])"
    using ne p all by blast
  then show ?thesis using ne p n0 n1 by simp
qed

section \<open>Verification: filesystem source\<close>

lemmas clean_simps = Clean_def Join_def isDot_def isDotDot_def dotdotStep_def addSeparator_def
  backtrack.simps

lemma getFileParam_file_request:
  "QueryUnescape f = Inr g \<Longrightarrow> f \<noteq> [] \<Longrightarrow> getFileParam (file_request f) = Inr g"
  by (simp add: getFileParam_def file_request_def Get_def)





















text \<open>
  The test is on the text of the path, not on its components: a sibling directory whose
  name starts with the root's name passes it, and so does every path when the mount root
  is the empty string.
\<close>

lemma FS_GetImage_sibling_directory_read:
  "FS_GetImage sample_config sample_fs (file_request ''../images-old/b.jpg'') =
     (Inr ''JPEG-B'', [FileOpen ''/srv/images-old/b.jpg''])"
proof -
  have g: "getFileParam (file_request ''../images-old/b.jpg'') = Inr ''../images-old/b.jpg''"
    by (rule getFileParam_file_request) simp_all
  have c: "Clean (Join [MountPath sample_config, ''../images-old/b.jpg'']) = ''/srv/images-old/b.jpg''"
    by (simp add: sample_config_def clean_simps)
  have m: "MountPath sample_config = ''/srv/images''"
    by (simp add: sample_config_def)
  show ?thesis
    using g c by (simp add: FS_GetImage_def m FS_read_def sample_fs_def)
qed

lemma FS_GetImage_empty_mount_read:
  "FS_GetImage (sample_config\<lparr>MountPath := []\<rparr>) fs (file_request ''../../etc/passwd'') =
     FS_read fs ''../../etc/passwd''"
proof -
  have g: "getFileParam (file_request ''../../etc/passwd'') = Inr ''../../etc/passwd''"
    by (rule getFileParam_file_request) simp_all
  have c: "Clean (Join [[], ''../../etc/passwd'']) = ''../../etc/passwd''"
    by (simp add: clean_simps)
  show ?thesis
    using g c by (simp add: FS_GetImage_def)
qed

section \<open>Verification: the operation pipeline\<close>

lemma pipelineLoop_append:
  "pipelineLoop impl build i img (xs @ ys) =
     (case pipelineLoop impl build i img xs of
        (Inl e, evs) \<Rightarrow> (Inl e, evs)
      | (Inr img', evs) \<Rightarrow>
          (case pipelineLoop impl build (i + length xs) img' ys of (res, evs') \<Rightarrow> (res, evs @ evs')))"
proof (induction xs arbitrary: i img)
  case Nil
  then show ?case by (simp split: prod.splits)
next
  case (Cons x xs)
  show ?case
    by (simp add: Cons.IH split: option.splits sum.splits prod.splits)
qed

lemma pipelineLoop_positions:
  "ev \<in> set (snd (pipelineLoop impl build i img xs)) \<Longrightarrow> i < callPosition ev \<and> callPosition ev \<le> i + length xs"
proof (induction xs arbitrary: i img)
  case Nil
  then show ?case by simp
next
  case (Cons x xs)
  from Cons.prems show ?case
    by (auto simp: case_prod_beta split: option.splits sum.splits if_splits dest!: Cons.IH)
qed

lemma pipelineLoop_success_runs_all:
  "fst (pipelineLoop impl build i img xs) = Inr img' \<Longrightarrow>
     map callPosition (snd (pipelineLoop impl build i img xs)) = [Suc i ..< Suc (i + length xs)]"
proof (induction xs arbitrary: i img)
  case Nil
  then show ?case by simp
next
  case (Cons x xs)
  have u: "[Suc i ..< Suc (i + length (x # xs))] = Suc i # [Suc (Suc i) ..< Suc (Suc i + length xs)]"
    by (subst upt_conv_Cons) simp_all
  from Cons.prems show ?case
    unfolding u
    by (auto simp: case_prod_beta split: option.splits sum.splits if_splits dest!: Cons.IH)
qed


lemma pipelineLoop_unknown:
  "Name bad \<notin> set OperationNames \<Longrightarrow>
     pipelineLoop impl build i img (bad # post) =
       (Inl (Typed (NewError (''Unsupported operation: '' @ Name bad) 400)), [])"
  by (simp add: OperationsMap_def)

text \<open>
  Claim C4, as the code has it. The loop looks a step's name up when it reaches the step.
  For a pipeline of at most ten steps with an unknown name at position \<open>k\<close> (after the
  steps \<open>pre\<close>): the result is an error, never an image; no operation is invoked at
  position \<open>k\<close> or later; the steps before \<open>k\<close> have been run as a pipeline of their
  own, and if that run did not abort, each of them was invoked, in order, and its output
  is dropped in favour of the unsupported-operation error.
\<close>

theorem Pipeline_unknown_operation:
  assumes ops: "operations = pre @ bad # post"
    and bad: "Name bad \<notin> set OperationNames"
    and len: "length operations \<le> 10"
  shows "(\<exists>e. fst (Pipeline impl build buf operations) = Inl e) \<and>
         (\<forall>ev \<in> set (snd (Pipeline impl build buf operations)). callPosition ev \<le> length pre) \<and>
         Pipeline impl build buf operations =
           (case pipelineLoop impl build 0 \<lparr>ImgBody = buf, Mime = []\<rparr> pre of
              (Inl e, evs) \<Rightarrow> (Inl e, evs)
            | (Inr img, evs) \<Rightarrow>
                (Inl (Typed (NewError (''Unsupported operation: '' @ Name bad) 400)), evs)) \<and>
         (\<forall>img. fst (pipelineLoop impl build 0 \<lparr>ImgBody = buf, Mime = []\<rparr> pre) = Inr img \<longrightarrow>
            map callPosition (snd (Pipeline impl build buf operations)) = [1 ..< Suc (length pre)])"
proof -
  let ?start = "\<lparr>ImgBody = buf, Mime = []\<rparr>"
  let ?run = "pipelineLoop impl build 0 ?start pre"
  have P: "Pipeline impl build buf operations = pipelineLoop impl build 0 ?start (pre @ bad # post)"
    using ops len by (simp add: Pipeline_def)
  have eq: "Pipeline impl build buf operations =
      (case ?run of (Inl e, evs) \<Rightarrow> (Inl e, evs)
       | (Inr img, evs) \<Rightarrow> (Inl (Typed (NewError (''Unsupported operation: '' @ Name bad) 400)), evs))"
    unfolding P pipelineLoop_append pipelineLoop_unknown [OF bad]
    by (simp split: prod.splits sum.splits)
  have snd_eq: "snd (Pipeline impl build buf operations) = snd ?run"
    unfolding eq by (simp split: prod.splits sum.splits)
  have err: "\<exists>e. fst (Pipeline impl build buf operations) = Inl e"
    unfolding eq by (simp split: prod.splits sum.splits)
  have pos: "\<forall>ev \<in> set (snd (Pipeline impl build buf operations)). callPosition ev \<le> length pre"
    unfolding snd_eq using pipelineLoop_positions [of _ impl build 0 ?start pre] by auto
  have all: "\<forall>img. fst ?run = Inr img \<longrightarrow>
      map callPosition (snd (Pipeline impl build buf operations)) = [1 ..< Suc (length pre)]"
    unfolding snd_eq using pipelineLoop_success_runs_all [of impl build 0 ?start pre] by auto
  from err pos eq all show ?thesis by blast
qed

lemma sample_names:
  "''flip'' \<in> set OperationNames" "''resize'' \<in> set OperationNames" "''nosuchop'' \<notin> set OperationNames"
  by (simp_all add: OperationNames_def)

theorem Pipeline_unknown_operation_witness:
  "[step ''flip'' [] False, step ''nosuchop'' [] False, step ''resize'' [(''width'', ''5'')] False] =
     [step ''flip'' [] False] @ step ''nosuchop'' [] False # [step ''resize'' [(''width'', ''5'')] False] \<and>
   Name (step ''nosuchop'' [] False) \<notin> set OperationNames \<and>
   Pipeline sample_impl sample_build ''IMG''
     [step ''flip'' [] False, step ''nosuchop'' [] False, step ''resize'' [(''width'', ''5'')] False] =
     (Inl (Typed (NewError ''Unsupported operation: nosuchop'' 400)), [TransformCall 1 ''flip'' ''IMG''])"
proof -
  let ?ops = "[step ''flip'' [] False, step ''nosuchop'' [] False, step ''resize'' [(''width'', ''5'')] False]"
  have a: "?ops = [step ''flip'' [] False] @ step ''nosuchop'' [] False # [step ''resize'' [(''width'', ''5'')] False]"
    by simp
  have b: "Name (step ''nosuchop'' [] False) \<notin> set OperationNames"
    by (simp add: step_def sample_names)
  have c: "length ?ops \<le> 10" by simp
  have run: "pipelineLoop sample_impl sample_build 0 \<lparr>ImgBody = ''IMG'', Mime = []\<rparr> [step ''flip'' [] False] =
      (Inr \<lparr>ImgBody = ''flip(IMG)'', Mime = ''image/jpeg''\<rparr>, [TransformCall 1 ''flip'' ''IMG''])"
    by (simp add: step_def OperationsMap_def sample_names sample_impl_def sample_build_def)
  from Pipeline_unknown_operation [OF a b c, of sample_impl sample_build "''IMG''"]
  have "Pipeline sample_impl sample_build ''IMG'' ?ops =
      (Inl (Typed (NewError (''Unsupported operation: '' @ Name (step ''nosuchop'' [] False)) 400)),
       [TransformCall 1 ''flip'' ''IMG''])"
    unfolding run by simp
  then show ?thesis using b by (simp add: step_def)
qed

text \<open>
  An unknown name at position 2 does not stop position 1 from running: the operation of
  step 1 is invoked before the pipeline is rejected.
\<close>

theorem Pipeline_runs_steps_before_unknown:
  "Pipeline sample_impl sample_build ''IMG'' [step ''flip'' [] False, step ''nosuchop'' [] False] =
     (Inl (Typed (Error ''Unsupported operation: nosuchop'' 400)), [TransformCall 1 ''flip'' ''IMG''])"
  by (simp add: Pipeline_def step_def OperationsMap_def sample_names sample_impl_def sample_build_def
        NewError_def)

text \<open>A failing step: with the flag unset the loop stops there; with the flag set it goes
  on to the next step with the image it had.\<close>

lemma pipelineLoop_failure_aborts:
  "OperationsMap impl (Name s) = Some op \<Longrightarrow> build s = Inr opts \<Longrightarrow> op (ImgBody img) opts = Inl e \<Longrightarrow>
   \<not> IgnoreFailure s \<Longrightarrow>
     pipelineLoop impl build i img (s # rest) = (Inl e, [TransformCall (i + 1) (Name s) (ImgBody img)])"
  by simp

lemma pipelineLoop_failure_ignored:
  "OperationsMap impl (Name s) = Some op \<Longrightarrow> build s = Inr opts \<Longrightarrow> op (ImgBody img) opts = Inl e \<Longrightarrow>
   IgnoreFailure s \<Longrightarrow>
     pipelineLoop impl build i img (s # rest) =
       (fst (pipelineLoop impl build (i + 1) img rest),
        TransformCall (i + 1) (Name s) (ImgBody img) # snd (pipelineLoop impl build (i + 1) img rest))"
  by (simp add: case_prod_beta)

text \<open>
  Claim C8 at a failing input. Step 2 of three fails in its operation with the flag unset:
  the pipeline stops, step 3 is not run, and the error returned is the operation's own
  error, with no position in it. The same step failing while its parameters are built is
  reported with its position, \<open>pipeline operation 2 failed\<close>.
\<close>

theorem Pipeline_step_error_not_annotated:
  "Pipeline sample_impl sample_build ''IMG'' [step ''flip'' [] False, step ''resize'' [] False, step ''flop'' [] False] =
     (Inl (Typed (Error ''Missing required param: height or width'' 400)),
      [TransformCall 1 ''flip'' ''IMG'', TransformCall 2 ''resize'' ''flip(IMG)'']) \<and>
   Pipeline sample_impl sample_build ''IMG'' [step ''flip'' [] False, step ''resize'' [(''width'', ''abc'')] False] =
     (Inl (Untyped ''pipeline operation 2 failed: invalid width''), [TransformCall 1 ''flip'' ''IMG''])"
  by (simp add: Pipeline_def step_def OperationsMap_def OperationNames_def sample_impl_def sample_build_def
        NewError_def decimal_def digit_char_def)


section \<open>Verification: the image handler and the remote fetch\<close>

lemma Log_HeaderSet [simp]: "Log (HeaderSet k v w) = Log w"
  by (simp add: HeaderSet_def)

lemma Log_WriteHeader [simp]: "Log (WriteHeader c w) = Log w"
  by (simp add: WriteHeader_def)

lemma Log_Write [simp]: "Log (Write b w) = Log w"
  by (simp add: Write_def)

lemma Log_sendError [simp]: "Log (sendError c e w) = Log w"
  by (simp add: sendError_def)

lemma Log_ErrorReply [simp]: "Log (ErrorReply lib r w e so) = Log w"
  by (simp add: ErrorReply_def replyWithPlaceholder_def Let_def split: sum.splits)

lemma Log_logEvents [simp]: "Log (logEvents evs w) = Log w @ evs"
  by (simp add: logEvents_def)

lemma readAllLimited_zero: "readAllLimited res 0 = Inr []"
  by (simp add: readAllLimited_def)

lemma fetchGet_zero:
  "MaxAllowedSize cfg = 0 \<Longrightarrow> fst (fetchGet v cfg remote u r) = Inr b \<Longrightarrow> b = []"
  by (auto simp: fetchGet_def Let_def readAllLimited_zero split: sum.splits if_splits)

lemma fetchImage_zero:
  "MaxAllowedSize cfg = 0 \<Longrightarrow> fst (fetchImage v cfg remote u r) = Inr b \<Longrightarrow> b = []"
  by (simp add: fetchImage_def fetchGet_zero)

lemma HTTP_GetImage_zero:
  "MaxAllowedSize cfg = 0 \<Longrightarrow> fst (HTTP_GetImage v parse cfg remote r) = Inr b \<Longrightarrow> b = []"
  by (auto simp: HTTP_GetImage_def dest: fetchImage_zero split: option.splits if_splits)

text \<open>
  Claim C6, as the code has it. In the HTTP source that reads through the limited reader
  (src/source.go), with no maximum size configured (\<open>MaxAllowedSize = 0\<close>): a \<open>GET\<close>
  answered with status 200 yields the empty buffer whatever the body was, a \<open>GET\<close>
  answered with another status yields the fetch error carrying that status, and every
  successful fetch is empty. A \<open>GET\<close> request that this source serves never reaches the
  operation: it ends in the handler's empty-body error when the fetch succeeds, and in the
  error-getting-image reply carrying the fetch error when the fetch fails. The HTTP source
  of src/source_http.go reads the whole body: under the same configuration the body of a
  200 answer is returned as it is.
\<close>

theorem HTTP_unlimited_fetch_cases:
  "MaxAllowedSize cfg = 0 \<Longrightarrow>
     (\<forall>res. remote (newRequest v cfg ''GET'' u r) = Inr res \<and> StatusCode res = 200 \<longrightarrow>
        fetchImage v cfg remote u r = (Inr [], [OutboundRequest (newRequest v cfg ''GET'' u r)])) \<and>
     (\<forall>res. remote (newRequest v cfg ''GET'' u r) = Inr res \<and> StatusCode res \<noteq> 200 \<longrightarrow>
        fetchImage v cfg remote u r =
          (Inl (Typed (NewError (''error fetching remote http image: (status='' @
                 decimal (StatusCode res) @ '') (url='' @ Str u @ '')'') (StatusCode res))),
           [OutboundRequest (newRequest v cfg ''GET'' u r)])) \<and>
     (\<forall>b. fst (fetchImage v cfg remote u r) = Inr b \<longrightarrow> b = []) \<and>
     (Method r = ''GET'' \<and> MatchSource sources r = Some SourceHTTP \<longrightarrow>
        createImageHandler lib world cfg sources buildParams so operation r w0 =
          (case fst (GetImage world cfg SourceHTTP r) of
             Inl err \<Rightarrow>
               ErrorReply lib r (logEvents (snd (GetImage world cfg SourceHTTP r)) w0)
                 (NewError (''Error getting image: '' @ errorString err) 400) so
           | Inr b \<Rightarrow>
               ErrorReply lib r (logEvents (snd (GetImage world cfg SourceHTTP r)) w0) ErrEmptyBody so) \<and>
        Log (createImageHandler lib world cfg sources buildParams so operation r w0) =
          Log w0 @ snd (GetImage world cfg SourceHTTP r)) \<and>
     (\<forall>res. remote (source_http_newRequest v cfg ''GET'' u r) = Inr res \<and> StatusCode res = 200 \<and>
            ReadErr res = None \<longrightarrow>
        source_http_fetchImage v cfg remote u r =
          (Inr (RespBody res), [OutboundRequest (source_http_newRequest v cfg ''GET'' u r)]))"
proof (intro conjI allI impI)
  fix res
  assume "MaxAllowedSize cfg = 0"
    and "remote (newRequest v cfg ''GET'' u r) = Inr res \<and> StatusCode res = 200"
  then show "fetchImage v cfg remote u r = (Inr [], [OutboundRequest (newRequest v cfg ''GET'' u r)])"
    by (simp add: fetchImage_def fetchGet_def readAllLimited_zero)
next
  fix res
  assume "MaxAllowedSize cfg = 0"
    and "remote (newRequest v cfg ''GET'' u r) = Inr res \<and> StatusCode res \<noteq> 200"
  then show "fetchImage v cfg remote u r =
          (Inl (Typed (NewError (''error fetching remote http image: (status='' @
                 decimal (StatusCode res) @ '') (url='' @ Str u @ '')'') (StatusCode res))),
           [OutboundRequest (newRequest v cfg ''GET'' u r)])"
    by (simp add: fetchImage_def fetchGet_def)
next
  fix b
  assume "MaxAllowedSize cfg = 0" and "fst (fetchImage v cfg remote u r) = Inr b"
  then show "b = []" by (rule fetchImage_zero)
next
  assume z: "MaxAllowedSize cfg = 0"
    and h: "Method r = ''GET'' \<and> MatchSource sources r = Some SourceHTTP"
  show reply: "createImageHandler lib world cfg sources buildParams so operation r w0 =
          (case fst (GetImage world cfg SourceHTTP r) of
             Inl err \<Rightarrow>
               ErrorReply lib r (logEvents (snd (GetImage world cfg SourceHTTP r)) w0)
                 (NewError (''Error getting image: '' @ errorString err) 400) so
           | Inr b \<Rightarrow>
               ErrorReply lib r (logEvents (snd (GetImage world cfg SourceHTTP r)) w0) ErrEmptyBody so)"
  proof (cases "fst (GetImage world cfg SourceHTTP r)")
    case (Inl err)
    with h show ?thesis
      by (simp add: createImageHandler_def getImageFromURL_def)
  next
    case (Inr b)
    then have "b = []"
      using HTTP_GetImage_zero [OF z] by auto
    with h Inr show ?thesis
      by (simp add: createImageHandler_def getImageFromURL_def)
  qed
  show "Log (createImageHandler lib world cfg sources buildParams so operation r w0) =
          Log w0 @ snd (GetImage world cfg SourceHTTP r)"
    unfolding reply by (simp split: sum.splits del: GetImage.simps)
next
  fix res
  assume "MaxAllowedSize cfg = 0"
    and "remote (source_http_newRequest v cfg ''GET'' u r) = Inr res \<and> StatusCode res = 200 \<and>
            ReadErr res = None"
  then show "source_http_fetchImage v cfg remote u r =
          (Inr (RespBody res), [OutboundRequest (source_http_newRequest v cfg ''GET'' u r)])"
    by (simp add: source_http_fetchImage_def source_http_fetchGet_def)
qed


theorem HTTP_unlimited_fetch_cases_witness:
  "MaxAllowedSize unlimited_config = 0 \<and>
   Network sample_world (newRequest ''1.2.4'' unlimited_config ''GET'' big_url url_request) =
     Inr \<lparr>StatusCode = 200, ContentLength = 10, RespBody = ''0123456789'', ReadErr = None\<rparr> \<and>
   fetchImage ''1.2.4'' unlimited_config sample_remote big_url url_request =
     (Inr [], [OutboundRequest (newRequest ''1.2.4'' unlimited_config ''GET'' big_url url_request)]) \<and>
   Method url_request = ''GET'' \<and>
   MatchSource [SourceFS, SourceBody, SourceHTTP] url_request = Some SourceHTTP \<and>
   fst (GetImage sample_world unlimited_config SourceHTTP url_request) = Inr [] \<and>
   Body (createImageHandler sample_lib sample_world unlimited_config
           [SourceFS, SourceBody, SourceHTTP] sample_buildParams sample_options (sample_impl ''resize'')
           url_request emptyWriter) =
     ''{\"message\":\"Empty or unreadable image\",\"status\":400}'' \<and>
   Log (createImageHandler sample_lib sample_world unlimited_config
           [SourceFS, SourceBody, SourceHTTP] sample_buildParams sample_options (sample_impl ''resize'')
           url_request emptyWriter) =
     [OutboundRequest (newRequest ''1.2.4'' unlimited_config ''GET'' big_url url_request)] \<and>
   absent_remote (newRequest ''1.2.4'' unlimited_config ''GET'' big_url url_request) =
     Inr \<lparr>StatusCode = 404, ContentLength = 9, RespBody = ''not found'', ReadErr = None\<rparr> \<and>
   fetchImage ''1.2.4'' unlimited_config absent_remote big_url url_request =
     (Inl (Typed (NewError
        ''error fetching remote http image: (status=404) (url=http://images.example.org/big.jpg)'' 404)),
      [OutboundRequest (newRequest ''1.2.4'' unlimited_config ''GET'' big_url url_request)]) \<and>
   sample_remote (source_http_newRequest ''1.2.4'' unlimited_config ''GET'' big_url url_request) =
     Inr \<lparr>StatusCode = 200, ContentLength = 10, RespBody = ''0123456789'', ReadErr = None\<rparr> \<and>
   source_http_fetchImage ''1.2.4'' unlimited_config sample_remote big_url url_request =
     (Inr ''0123456789'',
      [OutboundRequest (source_http_newRequest ''1.2.4'' unlimited_config ''GET'' big_url url_request)])"
proof -
  let ?cfg = unlimited_config
  let ?get = "newRequest ''1.2.4'' ?cfg ''GET'' big_url url_request"
  let ?get' = "source_http_newRequest ''1.2.4'' ?cfg ''GET'' big_url url_request"
  let ?res = "\<lparr>StatusCode = 200, ContentLength = 10, RespBody = ''0123456789'', ReadErr = None\<rparr>"
  let ?absent = "\<lparr>StatusCode = 404, ContentLength = 9, RespBody = ''not found'', ReadErr = None\<rparr>"
  note T = HTTP_unlimited_fetch_cases [where cfg = ?cfg and remote = sample_remote and v = "''1.2.4''"
      and u = big_url and r = url_request and sources = "[SourceFS, SourceBody, SourceHTTP]"
      and world = sample_world and lib = sample_lib and buildParams = sample_buildParams
      and so = sample_options and operation = "sample_impl ''resize''" and ?w0.0 = emptyWriter]
  note A = HTTP_unlimited_fetch_cases [where cfg = ?cfg and remote = absent_remote and v = "''1.2.4''"
      and u = big_url and r = url_request and sources = "[SourceFS, SourceBody, SourceHTTP]"
      and world = absent_world and lib = sample_lib and buildParams = sample_buildParams
      and so = sample_options and operation = "sample_impl ''resize''" and ?w0.0 = emptyWriter]
  have z: "MaxAllowedSize ?cfg = 0" by (simp add: unlimited_config_def)
  have n: "Network sample_world ?get = Inr ?res"
    by (simp add: sample_world_def sample_remote_def newRequest_def sample_config_def unlimited_config_def)
  have n': "sample_remote ?get = Inr ?res"
    using n by (simp add: sample_world_def)
  have f: "fetchImage ''1.2.4'' ?cfg sample_remote big_url url_request = (Inr [], [OutboundRequest ?get])"
    using T z n' by simp
  have m: "Method url_request = ''GET''" by (simp add: url_request_def)
  have ms: "MatchSource [SourceFS, SourceBody, SourceHTTP] url_request = Some SourceHTTP"
    by (simp add: MatchSource_def url_request_def FS_Matches_def Body_Matches_def HTTP_Matches_def Get_def)
  have g: "GetImage sample_world ?cfg SourceHTTP url_request = (Inr [], [OutboundRequest ?get])"
    using f by (simp add: HTTP_GetImage_def sample_world_def url_request_def Get_def
        shouldRestrictOrigin_def sample_config_def unlimited_config_def big_url_def)
  have h: "createImageHandler sample_lib sample_world ?cfg [SourceFS, SourceBody, SourceHTTP]
        sample_buildParams sample_options (sample_impl ''resize'') url_request emptyWriter =
      ErrorReply sample_lib url_request
        (logEvents (snd (GetImage sample_world ?cfg SourceHTTP url_request)) emptyWriter) ErrEmptyBody sample_options"
    using T z m ms g by simp
  have l: "Log (createImageHandler sample_lib sample_world ?cfg [SourceFS, SourceBody, SourceHTTP]
        sample_buildParams sample_options (sample_impl ''resize'') url_request emptyWriter) =
      [OutboundRequest ?get]"
    using T z m ms g by (simp add: emptyWriter_def)
  have b: "Body (ErrorReply sample_lib url_request
        (logEvents (snd (GetImage sample_world ?cfg SourceHTTP url_request)) emptyWriter) ErrEmptyBody sample_options) =
      ''{\"message\":\"Empty or unreadable image\",\"status\":400}''"
    unfolding g
    by (simp add: ErrorReply_def sample_options_def Write_def WriteHeader_def HeaderSet_def logEvents_def
        emptyWriter_def JSON_def sample_lib_def ErrEmptyBody_def NewError_def decimal_def digit_char_def)
  have a: "absent_remote ?get = Inr ?absent"
    by (simp add: absent_remote_def)
  have d: "decimal 404 = ''404''"
    by (simp add: decimal_def digit_char_def)
  have su: "Str big_url = ''http://images.example.org/big.jpg''"
    by (simp add: big_url_def)
  have fa: "fetchImage ''1.2.4'' ?cfg absent_remote big_url url_request =
      (Inl (Typed (NewError
         ''error fetching remote http image: (status=404) (url=http://images.example.org/big.jpg)'' 404)),
       [OutboundRequest ?get])"
    using A z a d su by simp
  have s: "sample_remote ?get' = Inr ?res"
    by (simp add: sample_remote_def source_http_newRequest_def sample_config_def unlimited_config_def)
  have fs: "source_http_fetchImage ''1.2.4'' ?cfg sample_remote big_url url_request =
      (Inr ''0123456789'', [OutboundRequest ?get'])"
    using T z s by simp
  show ?thesis using z n f m ms g h l b a fa s fs by simp
qed

text \<open>
  A remote server that answers 404: the request ends in the error-getting-image reply,
  which is not the empty-body error.
\<close>

theorem createImageHandler_remote_404_reply:
  "MaxAllowedSize unlimited_config = 0 \<and>
   Method url_request = ''GET'' \<and>
   MatchSource [SourceFS, SourceBody, SourceHTTP] url_request = Some SourceHTTP \<and>
   Body (createImageHandler sample_lib absent_world unlimited_config
           [SourceFS, SourceBody, SourceHTTP] sample_buildParams sample_options (sample_impl ''resize'')
           url_request emptyWriter) =
     ''{\"message\":\"Error getting image: error fetching remote http image: (status=404) (url=http://images.example.org/big.jpg)\",\"status\":400}'' \<and>
   Body (createImageHandler sample_lib absent_world unlimited_config
           [SourceFS, SourceBody, SourceHTTP] sample_buildParams sample_options (sample_impl ''resize'')
           url_request emptyWriter) \<noteq>
     Body (ErrorReply sample_lib url_request emptyWriter ErrEmptyBody sample_options)"
proof -
  have g: "GetImage absent_world unlimited_config SourceHTTP url_request =
      (Inl (Typed (NewError
         ''error fetching remote http image: (status=404) (url=http://images.example.org/big.jpg)'' 404)),
       [OutboundRequest (newRequest ''1.2.4'' unlimited_config ''GET'' big_url url_request)])"
    by (simp add: HTTP_GetImage_def absent_world_def sample_world_def url_request_def Get_def
        shouldRestrictOrigin_def sample_config_def unlimited_config_def big_url_def
        fetchImage_def fetchGet_def absent_remote_def decimal_def digit_char_def)
  have ms: "MatchSource [SourceFS, SourceBody, SourceHTTP] url_request = Some SourceHTTP"
    by (simp add: MatchSource_def url_request_def FS_Matches_def Body_Matches_def HTTP_Matches_def Get_def)
  have m: "Method url_request = ''GET''" by (simp add: url_request_def)
  have h: "createImageHandler sample_lib absent_world unlimited_config
           [SourceFS, SourceBody, SourceHTTP] sample_buildParams sample_options (sample_impl ''resize'')
           url_request emptyWriter =
      ErrorReply sample_lib url_request
        (logEvents [OutboundRequest (newRequest ''1.2.4'' unlimited_config ''GET'' big_url url_request)] emptyWriter)
        (NewError (''Error getting image: '' @
           ''error fetching remote http image: (status=404) (url=http://images.example.org/big.jpg)'') 400)
        sample_options"
    by (simp add: createImageHandler_def getImageFromURL_def ms m g NewError_def del: GetImage.simps)
  have b: "Body (createImageHandler sample_lib absent_world unlimited_config
           [SourceFS, SourceBody, SourceHTTP] sample_buildParams sample_options (sample_impl ''resize'')
           url_request emptyWriter) =
     ''{\"message\":\"Error getting image: error fetching remote http image: (status=404) (url=http://images.example.org/big.jpg)\",\"status\":400}''"
    unfolding h
    by (simp add: ErrorReply_def sample_options_def Write_def WriteHeader_def HeaderSet_def logEvents_def
        emptyWriter_def JSON_def sample_lib_def NewError_def decimal_def digit_char_def)
  have e: "Body (ErrorReply sample_lib url_request emptyWriter ErrEmptyBody sample_options) =
      ''{\"message\":\"Empty or unreadable image\",\"status\":400}''"
    by (simp add: ErrorReply_def sample_options_def Write_def WriteHeader_def HeaderSet_def
        emptyWriter_def JSON_def sample_lib_def ErrEmptyBody_def NewError_def decimal_def digit_char_def)
  have z: "MaxAllowedSize unlimited_config = 0" by (simp add: unlimited_config_def)
  show ?thesis unfolding b e using z m ms by simp
qed

text \<open>The \<open>HEAD\<close> probe: a declared length over the limit is refused with only the
  probe sent.\<close>

lemma fetchImage_declared_length_rejected:
  "MaxAllowedSize cfg > 0 \<Longrightarrow> remote (newRequest v cfg ''HEAD'' u r) = Inr res \<Longrightarrow>
   200 \<le> StatusCode res \<Longrightarrow> StatusCode res \<le> 206 \<Longrightarrow> ContentLength res > MaxAllowedSize cfg \<Longrightarrow>
     fetchImage v cfg remote u r =
       (Inl (Untyped (''content length '' @ decimal (ContentLength res) @
              '' exceeds maximum allowed '' @ decimal (MaxAllowedSize cfg) @ '' bytes'')),
        [OutboundRequest (newRequest v cfg ''HEAD'' u r)])"
  by (simp add: fetchImage_def checkImageSize_def)

lemma fetchImage_oversized_truncated:
  "MaxAllowedSize cfg > 0 \<Longrightarrow> checkImageSize v cfg remote u r = (None, evs) \<Longrightarrow>
   remote (newRequest v cfg ''GET'' u r) = Inr res \<Longrightarrow> StatusCode res = 200 \<Longrightarrow>
   int (length (RespBody res)) > MaxAllowedSize cfg \<Longrightarrow>
     fst (fetchImage v cfg remote u r) = Inr (take (nat (MaxAllowedSize cfg)) (RespBody res))"
  by (simp add: fetchImage_def fetchGet_def readAllLimited_def)

text \<open>
  Claim C5 at a failing input. The limit is 4 bytes; the server declares no length on
  \<open>HEAD\<close> and sends ten bytes on \<open>GET\<close>. The fetch succeeds with the first four bytes:
  a truncated buffer, not an error.
\<close>

theorem fetchImage_oversized_body_truncated:
  "fetchImage ''1.2.4'' sample_config sample_remote big_url url_request =
     (Inr ''0123'',
      [OutboundRequest (newRequest ''1.2.4'' sample_config ''HEAD'' big_url url_request),
       OutboundRequest (newRequest ''1.2.4'' sample_config ''GET'' big_url url_request)])"
proof -
  have h: "sample_remote (newRequest ''1.2.4'' sample_config ''HEAD'' big_url url_request) =
      Inr \<lparr>StatusCode = 200, ContentLength = - 1, RespBody = [], ReadErr = None\<rparr>"
    by (simp add: sample_remote_def newRequest_def sample_config_def)
  have g: "sample_remote (newRequest ''1.2.4'' sample_config ''GET'' big_url url_request) =
      Inr \<lparr>StatusCode = 200, ContentLength = 10, RespBody = ''0123456789'', ReadErr = None\<rparr>"
    by (simp add: sample_remote_def newRequest_def sample_config_def)
  have m: "MaxAllowedSize sample_config = 4"
    by (simp add: sample_config_def)
  show ?thesis
    by (simp add: fetchImage_def checkImageSize_def fetchGet_def readAllLimited_def h g m)
qed

text \<open>The HTTP source of src/source_http.go at the same input (the limit is 4 bytes and
  the server declares no length): all ten bytes of the body are returned, with no error.\<close>

lemma source_http_fetchImage_oversized_body_returned:
  "source_http_fetchImage ''1.2.4'' sample_config sample_remote big_url url_request =
     (Inr ''0123456789'',
      [OutboundRequest (source_http_newRequest ''1.2.4'' sample_config ''HEAD'' big_url url_request),
       OutboundRequest (source_http_newRequest ''1.2.4'' sample_config ''GET'' big_url url_request)])"
proof -
  have h: "sample_remote (source_http_newRequest ''1.2.4'' sample_config ''HEAD'' big_url url_request) =
      Inr \<lparr>StatusCode = 200, ContentLength = - 1, RespBody = [], ReadErr = None\<rparr>"
    by (simp add: sample_remote_def source_http_newRequest_def sample_config_def)
  have g: "sample_remote (source_http_newRequest ''1.2.4'' sample_config ''GET'' big_url url_request) =
      Inr \<lparr>StatusCode = 200, ContentLength = 10, RespBody = ''0123456789'', ReadErr = None\<rparr>"
    by (simp add: sample_remote_def source_http_newRequest_def sample_config_def)
  have m: "MaxAllowedSize sample_config = 4"
    by (simp add: sample_config_def)
  show ?thesis
    by (simp add: source_http_fetchImage_def source_http_checkImageSize_def source_http_fetchGet_def h g m)
qed

text \<open>
  Claim C7 on the handler that \<open>ImageMiddleware\<close> installs. \<open>createImageHandler\<close>
  never asks for the image's dimensions: whenever the image was obtained, is not empty and
  the parameters parse, the operation is invoked on it, whatever its resolution and
  whatever the configured ceiling.
\<close>

theorem createImageHandler_runs_operation_unguarded:
  "(if Method r = ''GET'' then getImageFromURL world cfg sources r else getImageFromRequest r) = (Inr buf, evs) \<Longrightarrow>
   buf \<noteq> [] \<Longrightarrow> buildParams (Query r) = Inr opts \<Longrightarrow>
     Log (createImageHandler lib world cfg sources buildParams so operation r w0) =
       Log w0 @ evs @ [OperationCall buf]"
  by (simp add: createImageHandler_def Let_def split: sum.splits)

theorem createImageHandler_runs_operation_unguarded_witness:
  "getImageFromRequest (upload_request ''POST'' ''IMAGE-OF-30000x30000-PIXELS'') =
     (Inr ''IMAGE-OF-30000x30000-PIXELS'', []) \<and>
   sample_buildParams (Query (upload_request ''POST'' ''IMAGE-OF-30000x30000-PIXELS'')) =
     Inr [(''width'', ''100'')] \<and>
   Log (createImageHandler sample_lib sample_world sample_config [SourceFS, SourceBody, SourceHTTP]
          sample_buildParams sample_options (sample_impl ''resize'')
          (upload_request ''POST'' ''IMAGE-OF-30000x30000-PIXELS'') emptyWriter) =
     [OperationCall ''IMAGE-OF-30000x30000-PIXELS'']"
proof -
  let ?r = "upload_request ''POST'' ''IMAGE-OF-30000x30000-PIXELS''"
  have a: "(if Method ?r = ''GET'' then getImageFromURL sample_world sample_config [SourceFS, SourceBody, SourceHTTP] ?r
            else getImageFromRequest ?r) = (Inr ''IMAGE-OF-30000x30000-PIXELS'', [])"
    by (simp add: upload_request_def getImageFromRequest_def)
  have a': "getImageFromRequest ?r = (Inr ''IMAGE-OF-30000x30000-PIXELS'', [])"
    by (simp add: upload_request_def getImageFromRequest_def)
  have b: "''IMAGE-OF-30000x30000-PIXELS'' \<noteq> []" by simp
  have c: "sample_buildParams (Query ?r) = Inr [(''width'', ''100'')]"
    by (simp add: sample_buildParams_def upload_request_def Get_def)
  from createImageHandler_runs_operation_unguarded [where lib = sample_lib
      and so = sample_options and operation = "sample_impl ''resize''" and ?w0.0 = emptyWriter
      and r = ?r and world = sample_world and cfg = sample_config
      and sources = "[SourceFS, SourceBody, SourceHTTP]" and buildParams = sample_buildParams
      and buf = "''IMAGE-OF-30000x30000-PIXELS''" and evs = "[]" and opts = "[(''width'', ''100'')]",
      OF a b c]
  have "Log (createImageHandler sample_lib sample_world sample_config [SourceFS, SourceBody, SourceHTTP]
          sample_buildParams sample_options (sample_impl ''resize'') ?r emptyWriter) =
     [OperationCall ''IMAGE-OF-30000x30000-PIXELS'']"
    by (simp add: emptyWriter_def)
  with a' c show ?thesis by simp
qed


section \<open>Verification: the middleware chain\<close>

lemma validateRequest_other_method:
  "Method r \<noteq> ''GET'' \<Longrightarrow> Method r \<noteq> ''POST'' \<Longrightarrow>
     validateRequest lib next so r w = ErrorReply lib r w ErrMethodNotAllowed so"
  by (simp add: validateRequest_def)

lemma Middleware_other_method:
  "Method r \<noteq> ''GET'' \<Longrightarrow> Method r \<noteq> ''POST'' \<Longrightarrow>
     Middleware lib wr fn so r w = ErrorReply lib r w ErrMethodNotAllowed so"
  by (simp add: Middleware_def Let_def validateRequest_def)

text \<open>
  Claim C9, as the code has it. The body source matches \<open>POST\<close> and \<open>PUT\<close>, but the
  chain's method validation passes only \<open>GET\<close> and \<open>POST\<close>: a request with any other
  method, \<open>PUT\<close> included, is answered with the method-not-allowed error, whose code is
  405 (or, when URL signatures are enforced, possibly with a signature error before that);
  the image handler is not run, and no remote fetch, file read or operation call happens.
\<close>

theorem ImageMiddleware_rejects_other_methods:
  "(Matches SourceBody r \<longleftrightarrow> Method r = ''POST'' \<or> Method r = ''PUT'') \<and>
   Code ErrMethodNotAllowed = 405 \<and>
   (Method r \<noteq> ''GET'' \<and> Method r \<noteq> ''POST'' \<longrightarrow>
     (\<not> EnableURLSignature so \<longrightarrow>
        ImageMiddleware lib wr world cfg sources buildParams so operation r w =
          ErrorReply lib r w ErrMethodNotAllowed so) \<and>
     ImageMiddleware lib wr world cfg sources buildParams so operation r w \<in>
       {ErrorReply lib r w ErrMethodNotAllowed so, ErrorReply lib r w ErrInvalidURLSignature so,
        ErrorReply lib r w ErrURLSignatureMismatch so} \<and>
     Log (ImageMiddleware lib wr world cfg sources buildParams so operation r w) = Log w)"
proof (intro conjI impI)
  show "Matches SourceBody r \<longleftrightarrow> Method r = ''POST'' \<or> Method r = ''PUT''"
    by (simp add: Body_Matches_def)
  show "Code ErrMethodNotAllowed = 405"
    by (simp add: ErrMethodNotAllowed_def NewError_def)
next
  assume m: "Method r \<noteq> ''GET'' \<and> Method r \<noteq> ''POST''"
  let ?fn = "createImageHandler lib world cfg sources buildParams so operation"
  have v: "validateImageRequest lib (Middleware lib wr ?fn so) so r w =
      ErrorReply lib r w ErrMethodNotAllowed so"
    using m by (simp add: validateImageRequest_def Middleware_other_method)
  show b: "ImageMiddleware lib wr world cfg sources buildParams so operation r w \<in>
       {ErrorReply lib r w ErrMethodNotAllowed so, ErrorReply lib r w ErrInvalidURLSignature so,
        ErrorReply lib r w ErrURLSignatureMismatch so}"
    using v by (simp add: ImageMiddleware_def Let_def checkURLSignature_def split: option.splits)
  show "Log (ImageMiddleware lib wr world cfg sources buildParams so operation r w) = Log w"
    using b by auto
  show "ImageMiddleware lib wr world cfg sources buildParams so operation r w =
          ErrorReply lib r w ErrMethodNotAllowed so" if "\<not> EnableURLSignature so"
    using v that by (simp add: ImageMiddleware_def Let_def)
qed

theorem ImageMiddleware_rejects_other_methods_witness:
  "Matches SourceBody (raw_request ''PUT'' ''IMAGE'' [(''width'', [''100''])]) \<and>
   Method (raw_request ''PUT'' ''IMAGE'' [(''width'', [''100''])]) \<noteq> ''GET'' \<and>
   Method (raw_request ''PUT'' ''IMAGE'' [(''width'', [''100''])]) \<noteq> ''POST'' \<and>
   \<not> EnableURLSignature sample_options \<and>
   ImageMiddleware sample_lib sample_wrappers sample_world sample_config [SourceFS, SourceBody, SourceHTTP]
       sample_buildParams sample_options (sample_impl ''crop'')
       (raw_request ''PUT'' ''IMAGE'' [(''width'', [''100''])]) emptyWriter =
     ErrorReply sample_lib (raw_request ''PUT'' ''IMAGE'' [(''width'', [''100''])]) emptyWriter
       ErrMethodNotAllowed sample_options"
proof -
  let ?r = "raw_request ''PUT'' ''IMAGE'' [(''width'', [''100''])]"
  have p: "Method ?r = ''PUT''"
    by (simp add: raw_request_def)
  have a: "Method ?r \<noteq> ''GET''" and b: "Method ?r \<noteq> ''POST''"
    by (simp_all add: raw_request_def)
  have c: "\<not> EnableURLSignature sample_options"
    by (simp add: sample_options_def)
  from ImageMiddleware_rejects_other_methods [where r = ?r and so = sample_options and lib = sample_lib
      and wr = sample_wrappers and world = sample_world and cfg = sample_config
      and sources = "[SourceFS, SourceBody, SourceHTTP]" and buildParams = sample_buildParams
      and operation = "sample_impl ''crop''" and w = emptyWriter] a b c p
  show ?thesis by blast
qed

text \<open>A \<open>PUT\<close> request with an image as its body, which the body source would match, is
  answered with status 405 and nothing outside the response happens.\<close>

theorem ImageMiddleware_PUT_rejected:
  "Body_Matches (raw_request ''PUT'' ''IMAGE'' [(''width'', [''100''])]) \<and>
   Status (ImageMiddleware sample_lib sample_wrappers sample_world sample_config [SourceFS, SourceBody, SourceHTTP]
       sample_buildParams sample_options (sample_impl ''crop'')
       (raw_request ''PUT'' ''IMAGE'' [(''width'', [''100''])]) emptyWriter) = Some 405 \<and>
   Log (ImageMiddleware sample_lib sample_wrappers sample_world sample_config [SourceFS, SourceBody, SourceHTTP]
       sample_buildParams sample_options (sample_impl ''crop'')
       (raw_request ''PUT'' ''IMAGE'' [(''width'', [''100''])]) emptyWriter) = []"
  by (simp add: ImageMiddleware_def Middleware_def validateImageRequest_def validateRequest_def Let_def
      sample_options_def raw_request_def Body_Matches_def ErrorReply_def Write_def WriteHeader_def
      HeaderSet_def emptyWriter_def ErrMethodNotAllowed_def NewError_def HTTPCode_def)


text \<open>
  A \<open>POST\<close> passes the method validation, but the handler takes the image of a request
  that is not a \<open>GET\<close> from the multipart form field \<open>file\<close>, not from a source: a
  \<open>POST\<close> with the image as its raw body is answered with the error-getting-image reply.
\<close>

lemma createImageHandler_not_GET:
  "Method r \<noteq> ''GET'' \<Longrightarrow>
     createImageHandler lib world cfg sources buildParams so operation r w =
     createImageHandler lib world' cfg' [] buildParams so operation r w"
  by (simp add: createImageHandler_def)

lemma ImageMiddleware_raw_POST_refused:
  "Body_Matches (raw_request ''POST'' ''IMAGE'' [(''width'', [''100''])]) \<and>
   Status (ImageMiddleware sample_lib sample_wrappers sample_world sample_config [SourceFS, SourceBody, SourceHTTP]
       sample_buildParams sample_options (sample_impl ''crop'')
       (raw_request ''POST'' ''IMAGE'' [(''width'', [''100''])]) emptyWriter) = Some 400 \<and>
   Body (ImageMiddleware sample_lib sample_wrappers sample_world sample_config [SourceFS, SourceBody, SourceHTTP]
       sample_buildParams sample_options (sample_impl ''crop'')
       (raw_request ''POST'' ''IMAGE'' [(''width'', [''100''])]) emptyWriter) =
     ''{\"message\":\"Error getting image: request Content-Type is not multipart/form-data\",\"status\":400}''"
  by (simp add: ImageMiddleware_def Middleware_def validateImageRequest_def validateRequest_def Let_def
      addDefaultHeaders_def createImageHandler_def getImageFromRequest_def logEvents_def
      sample_options_def raw_request_def Body_Matches_def ErrorReply_def Write_def WriteHeader_def
      HeaderSet_def emptyWriter_def NewError_def HTTPCode_def JSON_def sample_lib_def
      sample_wrappers_def decimal_def digit_char_def)


section \<open>Verification: the error replier\<close>

lemma Write_fresh:
  "Status w = None \<Longrightarrow> Status (Write b (WriteHeader c w)) = Some c"
  by (simp add: Write_def WriteHeader_def)

text \<open>
  Claim C10, as the code has it. Without a placeholder the reply is the JSON error body
  with the error's HTTP status. With a placeholder configured, and when the request's
  \<open>width\<close> and \<open>height\<close> parse and the placeholder can be resized, the reply is the
  resized placeholder with the \<open>Error\<close> header holding the JSON of the original error and
  the status the configured placeholder status if that is non-zero, else the error's HTTP
  status. When \<open>width\<close> or \<open>height\<close> does not parse, or the resize fails, the reply is a
  JSON error of that failure with status 400 instead.
\<close>

theorem ErrorReply_placeholder_cases:
  "(\<not> (EnablePlaceholder so \<or> Placeholder so \<noteq> []) \<longrightarrow>
      Hdr (ErrorReply lib req w err so) ''Content-Type'' = Some ''application/json'' \<and>
      Body (ErrorReply lib req w err so) = Body w @ JSON lib err \<and>
      (Status w = None \<longrightarrow> Status (ErrorReply lib req w err so) = Some (HTTPCode err))) \<and>
   ((EnablePlaceholder so \<or> Placeholder so \<noteq> []) \<and>
     parseInt lib (Get (Query req) ''width'') = Inr wd \<and>
     parseInt lib (Get (Query req) ''height'') = Inr ht \<and>
     bimgResize lib (PlaceholderImage so)
       \<lparr>OptForce = True, OptCrop = True, OptEnlarge = True,
        OptType = ImageType (Get (Query req) ''type''), OptWidth = wd, OptHeight = ht\<rparr> = Inr img \<longrightarrow>
      Hdr (ErrorReply lib req w err so) ''Error'' = Some (JSON lib err) \<and>
      Hdr (ErrorReply lib req w err so) ''Content-Type'' =
        Some (GetImageMimeType (bimgDetermineImageType lib img)) \<and>
      Body (ErrorReply lib req w err so) = Body w @ img \<and>
      (Status w = None \<longrightarrow> Status (ErrorReply lib req w err so) =
         Some (if PlaceholderStatus so \<noteq> 0 then PlaceholderStatus so else HTTPCode err))) \<and>
   ((EnablePlaceholder so \<or> Placeholder so \<noteq> []) \<and>
     parseInt lib (Get (Query req) ''width'') = Inl msg \<longrightarrow>
      ErrorReply lib req w err so = sendError 400 msg w) \<and>
   ((EnablePlaceholder so \<or> Placeholder so \<noteq> []) \<and>
     parseInt lib (Get (Query req) ''width'') = Inr wd \<and>
     parseInt lib (Get (Query req) ''height'') = Inl msg \<longrightarrow>
      ErrorReply lib req w err so = sendError 400 msg w) \<and>
   ((EnablePlaceholder so \<or> Placeholder so \<noteq> []) \<and>
     parseInt lib (Get (Query req) ''width'') = Inr wd \<and>
     parseInt lib (Get (Query req) ''height'') = Inr ht \<and>
     bimgResize lib (PlaceholderImage so)
       \<lparr>OptForce = True, OptCrop = True, OptEnlarge = True,
        OptType = ImageType (Get (Query req) ''type''), OptWidth = wd, OptHeight = ht\<rparr> = Inl msg \<longrightarrow>
      ErrorReply lib req w err so = sendError 400 msg w)"
  by (auto simp: ErrorReply_def replyWithPlaceholder_def Let_def Write_def WriteHeader_def HeaderSet_def)


lemmas reply_simps = ErrorReply_def replyWithPlaceholder_def sendError_def Write_def WriteHeader_def
  HeaderSet_def emptyWriter_def JSON_def NewError_def HTTPCode_def decimal_def digit_char_def Get_def
  sample_lib_def sample_parseInt_def sample_options_def placeholder_options_def raw_request_def

theorem ErrorReply_placeholder_cases_witness:
  "(EnablePlaceholder placeholder_options \<or> Placeholder placeholder_options \<noteq> []) \<and>
   parseInt sample_lib (Get (Query (raw_request ''GET'' [] [(''width'', [''5'']), (''height'', [''7''])])) ''width'') = Inr 5 \<and>
   parseInt sample_lib (Get (Query (raw_request ''GET'' [] [(''width'', [''5'']), (''height'', [''7''])])) ''height'') = Inr 7 \<and>
   bimgResize sample_lib (PlaceholderImage placeholder_options)
       \<lparr>OptForce = True, OptCrop = True, OptEnlarge = True,
        OptType = ImageType (Get (Query (raw_request ''GET'' [] [(''width'', [''5'']), (''height'', [''7''])])) ''type''),
        OptWidth = 5, OptHeight = 7\<rparr> = Inr ''PLACEHOLDER'' \<and>
   Hdr (ErrorReply sample_lib (raw_request ''GET'' [] [(''width'', [''5'']), (''height'', [''7''])]) emptyWriter
          ErrURLSignatureMismatch placeholder_options) ''Error'' =
     Some ''{\"message\":\"URL signature mismatch\",\"status\":403}'' \<and>
   Body (ErrorReply sample_lib (raw_request ''GET'' [] [(''width'', [''5'']), (''height'', [''7''])]) emptyWriter
          ErrURLSignatureMismatch placeholder_options) = ''PLACEHOLDER'' \<and>
   Status (ErrorReply sample_lib (raw_request ''GET'' [] [(''width'', [''5'']), (''height'', [''7''])]) emptyWriter
          ErrURLSignatureMismatch placeholder_options) = Some 403 \<and>
   \<not> (EnablePlaceholder sample_options \<or> Placeholder sample_options \<noteq> []) \<and>
   Body (ErrorReply sample_lib (raw_request ''GET'' [] []) emptyWriter ErrURLSignatureMismatch sample_options) =
     ''{\"message\":\"URL signature mismatch\",\"status\":403}'' \<and>
   Status (ErrorReply sample_lib (raw_request ''GET'' [] []) emptyWriter ErrURLSignatureMismatch sample_options) =
     Some 403 \<and>
   parseInt sample_lib (Get (Query (raw_request ''GET'' [] [(''width'', [''abc''])])) ''width'') =
     Inl ''invalid number: abc'' \<and>
   ErrorReply sample_lib (raw_request ''GET'' [] [(''width'', [''abc''])]) emptyWriter
       ErrURLSignatureMismatch placeholder_options =
     sendError 400 ''invalid number: abc'' emptyWriter"
proof -
  let ?r = "raw_request ''GET'' [] [(''width'', [''5'']), (''height'', [''7''])]"
  let ?opts = "\<lparr>OptForce = True, OptCrop = True, OptEnlarge = True,
        OptType = ImageType (Get (Query ?r) ''type''), OptWidth = 5, OptHeight = 7\<rparr>"
  let ?bad = "raw_request ''GET'' [] [(''width'', [''abc''])]"
  have p: "EnablePlaceholder placeholder_options \<or> Placeholder placeholder_options \<noteq> []"
    by (simp add: placeholder_options_def)
  have np: "\<not> (EnablePlaceholder sample_options \<or> Placeholder sample_options \<noteq> [])"
    by (simp add: sample_options_def)
  have wd: "parseInt sample_lib (Get (Query ?r) ''width'') = Inr 5"
    by (simp add: reply_simps)
  have ht: "parseInt sample_lib (Get (Query ?r) ''height'') = Inr 7"
    by (simp add: reply_simps)
  have rs: "bimgResize sample_lib (PlaceholderImage placeholder_options) ?opts = Inr ''PLACEHOLDER''"
    by (simp add: reply_simps)
  have bad: "parseInt sample_lib (Get (Query ?bad) ''width'') = Inl ''invalid number: abc''"
    by (simp add: reply_simps)
  have fresh: "Status emptyWriter = None" "Body emptyWriter = []"
    by (simp_all add: emptyWriter_def)
  have j: "JSON sample_lib ErrURLSignatureMismatch = ''{\"message\":\"URL signature mismatch\",\"status\":403}''"
    by (simp add: reply_simps ErrURLSignatureMismatch_def)
  have c: "HTTPCode ErrURLSignatureMismatch = 403" "PlaceholderStatus placeholder_options = 0"
    by (simp_all add: reply_simps ErrURLSignatureMismatch_def)
  note T1 = ErrorReply_placeholder_cases [where so = placeholder_options and lib = sample_lib and req = ?r
      and w = emptyWriter and err = ErrURLSignatureMismatch and wd = 5 and ht = 7 and img = "''PLACEHOLDER''"]
  note T2 = ErrorReply_placeholder_cases [where so = sample_options and lib = sample_lib
      and req = "raw_request ''GET'' [] []" and w = emptyWriter and err = ErrURLSignatureMismatch]
  note T3 = ErrorReply_placeholder_cases [where so = placeholder_options and lib = sample_lib and req = ?bad
      and w = emptyWriter and err = ErrURLSignatureMismatch and msg = "''invalid number: abc''"]
  have r1: "Hdr (ErrorReply sample_lib ?r emptyWriter ErrURLSignatureMismatch placeholder_options) ''Error'' =
        Some ''{\"message\":\"URL signature mismatch\",\"status\":403}''"
      "Body (ErrorReply sample_lib ?r emptyWriter ErrURLSignatureMismatch placeholder_options) = ''PLACEHOLDER''"
      "Status (ErrorReply sample_lib ?r emptyWriter ErrURLSignatureMismatch placeholder_options) = Some 403"
    using T1 p wd ht rs fresh j c by simp_all
  have r2: "Body (ErrorReply sample_lib (raw_request ''GET'' [] []) emptyWriter ErrURLSignatureMismatch sample_options) =
        ''{\"message\":\"URL signature mismatch\",\"status\":403}''"
      "Status (ErrorReply sample_lib (raw_request ''GET'' [] []) emptyWriter ErrURLSignatureMismatch sample_options) =
        Some 403"
    using T2 np fresh j c by simp_all
  have r3: "ErrorReply sample_lib ?bad emptyWriter ErrURLSignatureMismatch placeholder_options =
      sendError 400 ''invalid number: abc'' emptyWriter"
    using T3 p bad by simp
  show ?thesis using p np wd ht rs bad r1 r2 r3 by simp
qed

text \<open>Placeholder mode on, no placeholder status set, an error of status 403, and a request
  whose \<open>width\<close> is not a number: the reply has status 400, carries no \<open>Error\<close> header,
  and its body is not the placeholder image.\<close>

theorem ErrorReply_placeholder_bad_width:
  "Hdr (ErrorReply sample_lib (raw_request ''GET'' [] [(''width'', [''abc''])]) emptyWriter
          ErrURLSignatureMismatch placeholder_options) ''Error'' = None \<and>
   Status (ErrorReply sample_lib (raw_request ''GET'' [] [(''width'', [''abc''])]) emptyWriter
          ErrURLSignatureMismatch placeholder_options) = Some 400 \<and>
   Body (ErrorReply sample_lib (raw_request ''GET'' [] [(''width'', [''abc''])]) emptyWriter
          ErrURLSignatureMismatch placeholder_options) =
     ''{\"error\":\"invalid number: abc\", \"status\":400}'' \<and>
   HTTPCode ErrURLSignatureMismatch = 403 \<and>
   PlaceholderStatus placeholder_options = 0 \<and>
   PlaceholderImage placeholder_options = ''PLACEHOLDER''"
  by (simp add: reply_simps ErrURLSignatureMismatch_def)


section \<open>Verification: URL signatures\<close>

lemma sextet_sum:
  fixes v :: nat
  shows "v div 262144 * 262144 + v div 4096 mod 64 * 4096 + v div 64 mod 64 * 64 + v mod 64 = v"
proof -
  define q1 where "q1 = v div 64"
  define q2 where "q2 = q1 div 64"
  define q3 where "q3 = q2 div 64"
  have d2: "v div 4096 = q2"
    unfolding q2_def q1_def by (simp add: div_mult2_eq [symmetric])
  have d3: "v div 262144 = q3"
    unfolding q3_def q2_def q1_def by (simp add: div_mult2_eq [symmetric])
  have e1: "v = q1 * 64 + v mod 64"
    unfolding q1_def by simp
  have e2: "q1 = q2 * 64 + q1 mod 64"
    unfolding q2_def by simp
  have e3: "q2 = q3 * 64 + q2 mod 64"
    unfolding q3_def by simp
  have "q3 * 262144 + q2 mod 64 * 4096 + q1 mod 64 * 64 + v mod 64 = v"
    using e1 e2 e3 by linarith
  then show ?thesis
    unfolding d2 d3 q1_def [symmetric] .
qed

lemma sextet_top:
  fixes v :: nat
  shows "v < 16777216 \<Longrightarrow> v div 262144 < 64"
  by (simp add: less_mult_imp_div_less)

lemma bytes_bound:
  fixes a b c :: nat
  shows "a < 256 \<Longrightarrow> b < 256 \<Longrightarrow> c < 256 \<Longrightarrow> a * 65536 + b * 256 + c < 16777216"
  by linarith

lemma bytes_hi:
  fixes a b c :: nat
  assumes "b < 256" "c < 256"
  shows "(a * 65536 + b * 256 + c) div 65536 = a"
proof -
  have "b * 256 + c < 65536" using assms by linarith
  then have "(b * 256 + c) div 65536 = 0" by simp
  moreover have "(a * 65536 + b * 256 + c) div 65536 = a + (b * 256 + c) div 65536"
    by (simp add: add.assoc)
  ultimately show ?thesis by simp
qed

lemma bytes_mid:
  fixes a b c :: nat
  assumes "b < 256" "c < 256"
  shows "(a * 65536 + b * 256 + c) div 256 mod 256 = b"
proof -
  have "a * 65536 + b * 256 + c = (a * 256 + b) * 256 + c" by simp
  then have "(a * 65536 + b * 256 + c) div 256 = a * 256 + b"
    using assms by simp
  then show ?thesis using assms by simp
qed

lemma bytes_lo:
  fixes a b c :: nat
  assumes "c < 256"
  shows "(a * 65536 + b * 256 + c) mod 256 = c"
proof -
  have e: "a * 65536 + b * 256 + c = c + 256 * (a * 256 + b)" by simp
  have "(c + 256 * (a * 256 + b)) mod 256 = c mod 256" by (rule mod_mult_self2)
  then show ?thesis unfolding e using assms by simp
qed

lemma index_of_nth: "distinct xs \<Longrightarrow> i < length xs \<Longrightarrow> index_of (xs ! i) xs = Some i"
proof (induction xs arbitrary: i)
  case Nil
  then show ?case by simp
next
  case (Cons x xs)
  then show ?case by (cases i) auto
qed

lemma distinct_encodeURL: "distinct encodeURL"
  by (simp add: encodeURL_def)

lemma length_encodeURL: "length encodeURL = 64"
  by (simp add: encodeURL_def)

lemma decodeMap_encodeURL: "v < 64 \<Longrightarrow> decodeMap (encodeURL ! v) = Some v"
  by (simp add: decodeMap_def index_of_nth distinct_encodeURL length_encodeURL)

lemma sextets_map: "\<forall>v \<in> set vs. v < 64 \<Longrightarrow> sextets (map (\<lambda>v. encodeURL ! v) vs) = Some vs"
  by (induction vs) (simp_all add: decodeMap_encodeURL)

lemma of_char_byte: "of_char (c::char) < (256::nat)"
  by simp

lemma encSextets_bound: "v \<in> set (encSextets bs) \<Longrightarrow> v < 64"
proof (induction bs arbitrary: v rule: encSextets.induct)
  case (1 x y z rest)
  have "of_char x * 65536 + of_char y * 256 + of_char z < (16777216::nat)"
    by (rule bytes_bound) (rule of_char_byte)+
  then have "(of_char x * 65536 + of_char y * 256 + of_char z) div 262144 < (64::nat)"
    by (rule sextet_top)
  with 1 show ?case by (auto simp: Let_def)
next
  case (2 x y)
  have "of_char x * 65536 + of_char y * 256 < (16777216::nat)"
    using of_char_byte [of x] of_char_byte [of y] by linarith
  then have "(of_char x * 65536 + of_char y * 256) div 262144 < (64::nat)"
    by (rule sextet_top)
  with 2 show ?case by (auto simp: Let_def)
next
  case (3 x)
  have "of_char x * 65536 < (16777216::nat)"
    using of_char_byte [of x] by linarith
  then have "(of_char x * 65536) div 262144 < (64::nat)"
    by (rule sextet_top)
  with 3 show ?case by (auto simp: Let_def)
next
  case 4
  then show ?case by simp
qed

lemma quanta_three:
  fixes a b c :: nat
  assumes "a < 256" "b < 256" "c < 256"
  defines "v \<equiv> a * 65536 + b * 256 + c"
  shows "quanta (v div 262144 # v div 4096 mod 64 # v div 64 mod 64 # v mod 64 # rest) =
         map_option ((@) [char_of a, char_of b, char_of c]) (quanta rest)"
proof -
  have s: "v div 262144 * 262144 + v div 4096 mod 64 * 4096 + v div 64 mod 64 * 64 + v mod 64 = v"
    by (rule sextet_sum)
  have h: "v div 65536 = a" unfolding v_def using assms(2,3) by (rule bytes_hi)
  have m: "v div 256 mod 256 = b" unfolding v_def using assms(2,3) by (rule bytes_mid)
  have l: "v mod 256 = c" unfolding v_def using assms(3) by (rule bytes_lo)
  have cm: "char_of (v div 256) = char_of b"
    using m char_of_mod_256 [of "v div 256"] by simp
  have cl: "char_of v = char_of c"
    using l char_of_mod_256 [of v] by simp
  show ?thesis
    by (simp add: s h cm cl Let_def)
qed


lemma quanta_two:
  fixes a b :: nat
  assumes "a < 256" "b < 256"
  defines "v \<equiv> a * 65536 + b * 256"
  shows "quanta [v div 262144, v div 4096 mod 64, v div 64 mod 64] = Some [char_of a, char_of b]"
proof -
  have "v = (a * 1024 + b * 4) * 64" unfolding v_def by simp
  then have z: "v mod 64 = 0" by simp
  have s: "v div 262144 * 262144 + v div 4096 mod 64 * 4096 + v div 64 mod 64 * 64 = v"
    using sextet_sum [of v] z by simp
  have v0: "v = a * 65536 + b * 256 + 0" unfolding v_def by simp
  have h: "v div 65536 = a" unfolding v0 using assms(2) by (rule bytes_hi) simp
  have m: "v div 256 mod 256 = b" unfolding v0 using assms(2) by (rule bytes_mid) simp
  have cm: "char_of (v div 256) = char_of b"
    using m char_of_mod_256 [of "v div 256"] by simp
  show ?thesis
    by (simp add: s h cm Let_def)
qed

lemma quanta_one:
  fixes a :: nat
  assumes "a < 256"
  defines "v \<equiv> a * 65536"
  shows "quanta [v div 262144, v div 4096 mod 64] = Some [char_of a]"
proof -
  have "v = (a * 1024) * 64" unfolding v_def by simp
  then have z: "v mod 64 = 0" by simp
  have "v div 64 = (a * 16) * 64" unfolding v_def by simp
  then have z1: "v div 64 mod 64 = 0" by simp
  have s: "v div 262144 * 262144 + v div 4096 mod 64 * 4096 = v"
    using sextet_sum [of v] z z1 by simp
  have v0: "v = a * 65536 + 0 * 256 + 0" unfolding v_def by simp
  have h: "v div 65536 = a" unfolding v0 by (rule bytes_hi) simp_all
  show ?thesis
    by (simp add: s h Let_def)
qed

lemma quanta_encSextets: "quanta (encSextets bs) = Some bs"
proof (induction bs rule: encSextets.induct)
  case (1 x y z rest)
  show ?case
    using quanta_three [OF of_char_byte of_char_byte of_char_byte, of x y z "encSextets rest"] 1
    by (simp add: Let_def)
next
  case (2 x y)
  show ?case
    using quanta_two [OF of_char_byte of_char_byte, of x y] by (simp add: Let_def)
next
  case (3 x)
  show ?case
    using quanta_one [OF of_char_byte, of x] by (simp add: Let_def)
next
  case 4
  show ?case by simp
qed

lemma DecodeString_EncodeToString: "DecodeString (EncodeToString bs) = Some bs"
  by (simp add: DecodeString_def EncodeToString_def sextets_map encSextets_bound quanta_encSextets)

lemma decodeMap_newline: "decodeMap (CHR 0x0A) = None"
  by (simp add: decodeMap_def encodeURL_def)

lemma sextets_newline: "sextets (s @ [CHR 0x0A]) = sextets s"
  by (induction s) (simp_all add: decodeMap_newline split: option.splits)

lemma DecodeString_trailing_newline:
  "DecodeString (EncodeToString bs @ [CHR 0x0A]) = Some bs"
  using DecodeString_EncodeToString [of bs] by (simp add: DecodeString_def sextets_newline)


text \<open>The model of SHA-256 yields the published digest of the three bytes \<open>abc\<close>
  (ba7816bf 8f01cfea 414140de 5dae2223 b00361a3 96177a9c b410ff61 f20015ad).\<close>

lemma sha256_abc:
  "map (\<lambda>c. of_char c :: nat) (sha256 ''abc'') =
     [186, 120, 22, 191, 143, 1, 207, 234, 65, 65, 64, 222, 93, 174, 34, 35, 176, 3, 97, 163,
      150, 23, 122, 156, 180, 16, 255, 97, 242, 0, 21, 173]"
  by code_simp

lemma sha_round_length: "length st = 8 \<Longrightarrow> length (sha_round st kw) = 8"
proof -
  assume "length st = 8"
  then obtain a b c d e f g h where "st = [a, b, c, d, e, f, g, h]"
    by (auto simp: length_Suc_conv eval_nat_numeral)
  then show ?thesis by (cases kw) (simp add: Let_def)
qed

lemma foldl_sha_round_length: "length st = 8 \<Longrightarrow> length (foldl sha_round st kws) = 8"
  by (induction kws arbitrary: st) (simp_all add: sha_round_length)

lemma compress_length: "length hs = 8 \<Longrightarrow> length (compress hs block) = 8"
  by (simp add: compress_def Let_def foldl_sha_round_length)

lemma foldl_compress_length: "length hs = 8 \<Longrightarrow> length (foldl compress hs blocks) = 8"
  by (induction blocks arbitrary: hs) (simp_all add: compress_length)

lemma length_concat_bytes32: "length (concat (map bytes32 ws)) = 4 * length ws"
  by (induction ws) (simp_all add: bytes32_def)

lemma sha256_length: "length (sha256 m) = 32"
  by (simp add: sha256_def length_concat_bytes32 foldl_compress_length H256_def)

lemma hmac_sha256_length: "length (hmac_sha256 key msg) = 32"
  by (simp add: hmac_sha256_def sha256_length)

text \<open>
  Claim C3, as the code has it. The signature is accepted exactly when the \<open>sign\<close>
  parameter decodes, under the lenient URL-safe unpadded base64 decoding, to the
  HMAC-SHA256 under the key of the path followed by the sorted query encoding without
  \<open>sign\<close>; the encoding of that digest is always accepted. A value that does not decode
  is answered with the invalid-signature error (400), a value that decodes to other bytes
  with the signature-mismatch error (403); in both cases the reply does not depend on the
  inner handler.
\<close>

theorem checkURLSignature_cases:
  "(DecodeString (Get (Query r) ''sign'') = None \<longrightarrow>
      checkURLSignature lib nxt so r w = ErrorReply lib r w ErrInvalidURLSignature so) \<and>
   (\<forall>s. DecodeString (Get (Query r) ''sign'') = Some s \<and>
        s \<noteq> hmac_sha256 (URLSignatureKey so) (UrlPath r @ Encode (Del (Query r) ''sign'')) \<longrightarrow>
      checkURLSignature lib nxt so r w = ErrorReply lib r w ErrURLSignatureMismatch so) \<and>
   (DecodeString (Get (Query r) ''sign'') =
        Some (hmac_sha256 (URLSignatureKey so) (UrlPath r @ Encode (Del (Query r) ''sign''))) \<longrightarrow>
      checkURLSignature lib nxt so r w = nxt r w) \<and>
   (Get (Query r) ''sign'' =
        EncodeToString (hmac_sha256 (URLSignatureKey so) (UrlPath r @ Encode (Del (Query r) ''sign''))) \<longrightarrow>
      checkURLSignature lib nxt so r w = nxt r w) \<and>
   HTTPCode ErrInvalidURLSignature = 400 \<and> HTTPCode ErrURLSignatureMismatch = 403"
  by (auto simp: checkURLSignature_def Let_def DecodeString_EncodeToString
        ErrInvalidURLSignature_def ErrURLSignatureMismatch_def NewError_def HTTPCode_def)

lemma signed_request_canonical:
  "UrlPath (signed_request sign) @ Encode (Del (Query (signed_request sign)) ''sign'') = ''/resizewidth=100''"
  by (simp add: signed_request_def Del_def Encode_def valuesOf_def QueryEscape_def escapeChar_def
        shouldEscape_def isAlnum_def)


theorem checkURLSignature_cases_witness:
  "DecodeString (Get (Query (signed_request ''not*base64'')) ''sign'') = None \<and>
   checkURLSignature sample_lib ok_handler signing_options (signed_request ''not*base64'') emptyWriter =
     ErrorReply sample_lib (signed_request ''not*base64'') emptyWriter ErrInvalidURLSignature signing_options \<and>
   DecodeString (Get (Query (signed_request ''AAAA'')) ''sign'') = Some [char_of (0::nat), char_of (0::nat), char_of (0::nat)] \<and>
   [char_of (0::nat), char_of (0::nat), char_of (0::nat)] \<noteq> hmac_sha256 ''secret'' ''/resizewidth=100'' \<and>
   checkURLSignature sample_lib ok_handler signing_options (signed_request ''AAAA'') emptyWriter =
     ErrorReply sample_lib (signed_request ''AAAA'') emptyWriter ErrURLSignatureMismatch signing_options \<and>
   checkURLSignature sample_lib ok_handler signing_options
       (signed_request (EncodeToString (hmac_sha256 ''secret'' ''/resizewidth=100''))) emptyWriter =
     ok_handler (signed_request (EncodeToString (hmac_sha256 ''secret'' ''/resizewidth=100''))) emptyWriter"
proof -
  let ?mac = "hmac_sha256 ''secret'' ''/resizewidth=100''"
  have key: "URLSignatureKey signing_options = ''secret''"
    by (simp add: signing_options_def sample_options_def)
  have sign: "Get (Query (signed_request x)) ''sign'' = x" for x
    by (simp add: signed_request_def Get_def)
  have d1: "DecodeString ''not*base64'' = None"
    by (simp add: DecodeString_def decodeMap_def encodeURL_def)
  have d2: "DecodeString ''AAAA'' = Some [char_of (0::nat), char_of (0::nat), char_of (0::nat)]"
    by (simp add: DecodeString_def decodeMap_def encodeURL_def)
  have ne: "[char_of (0::nat), char_of (0::nat), char_of (0::nat)] \<noteq> ?mac"
  proof
    assume "[char_of (0::nat), char_of (0::nat), char_of (0::nat)] = ?mac"
    then have "length ?mac = 3" by (metis length_Cons list.size(3) numeral_3_eq_3)
    then show False by (simp add: hmac_sha256_length)
  qed
  note T1 = checkURLSignature_cases [where r = "signed_request ''not*base64''" and lib = sample_lib
      and nxt = ok_handler and so = signing_options and w = emptyWriter]
  note T2 = checkURLSignature_cases [where r = "signed_request ''AAAA''" and lib = sample_lib
      and nxt = ok_handler and so = signing_options and w = emptyWriter]
  note T3 = checkURLSignature_cases [where r = "signed_request (EncodeToString ?mac)" and lib = sample_lib
      and nxt = ok_handler and so = signing_options and w = emptyWriter]
  have r1: "checkURLSignature sample_lib ok_handler signing_options (signed_request ''not*base64'') emptyWriter =
     ErrorReply sample_lib (signed_request ''not*base64'') emptyWriter ErrInvalidURLSignature signing_options"
    using T1 d1 by (simp add: sign)
  have r2: "checkURLSignature sample_lib ok_handler signing_options (signed_request ''AAAA'') emptyWriter =
     ErrorReply sample_lib (signed_request ''AAAA'') emptyWriter ErrURLSignatureMismatch signing_options"
    using T2 d2 ne by (simp add: sign key signed_request_canonical)
  have r3: "checkURLSignature sample_lib ok_handler signing_options (signed_request (EncodeToString ?mac)) emptyWriter =
     ok_handler (signed_request (EncodeToString ?mac)) emptyWriter"
    using T3 by (simp add: sign key signed_request_canonical)
  show ?thesis using d1 d2 ne r1 r2 r3 by (simp add: sign)
qed

text \<open>
  The accepted texts are more than the one encoding: the decoder skips line feeds, so the
  encoding of the digest followed by a line feed is a different \<open>sign\<close> value that is
  accepted too, and the inner handler runs.
\<close>

theorem checkURLSignature_accepts_other_text:
  "EncodeToString (hmac_sha256 ''secret'' ''/resizewidth=100'') @ [CHR 0x0A] \<noteq>
     EncodeToString (hmac_sha256 ''secret'' ''/resizewidth=100'') \<and>
   checkURLSignature sample_lib ok_handler signing_options
       (signed_request (EncodeToString (hmac_sha256 ''secret'' ''/resizewidth=100'') @ [CHR 0x0A])) emptyWriter =
     ok_handler (signed_request (EncodeToString (hmac_sha256 ''secret'' ''/resizewidth=100'') @ [CHR 0x0A]))
       emptyWriter \<and>
   Body (checkURLSignature sample_lib ok_handler signing_options
       (signed_request (EncodeToString (hmac_sha256 ''secret'' ''/resizewidth=100'') @ [CHR 0x0A])) emptyWriter) =
     ''OK''"
proof -
  let ?mac = "hmac_sha256 ''secret'' ''/resizewidth=100''"
  let ?sign = "EncodeToString ?mac @ [CHR 0x0A]"
  have key: "URLSignatureKey signing_options = ''secret''"
    by (simp add: signing_options_def sample_options_def)
  have sign: "Get (Query (signed_request ?sign)) ''sign'' = ?sign"
    by (simp add: signed_request_def Get_def)
  have a: "checkURLSignature sample_lib ok_handler signing_options (signed_request ?sign) emptyWriter =
      ok_handler (signed_request ?sign) emptyWriter"
    by (simp add: checkURLSignature_def Let_def sign key signed_request_canonical
        DecodeString_trailing_newline)
  have b: "Body (ok_handler (signed_request ?sign) emptyWriter) = ''OK''"
    by (simp add: ok_handler_def Write_def WriteHeader_def emptyWriter_def)
  show ?thesis using a b by simp
qed


end
